theory Spec2Isabelle
  imports Main "HOL-Library.Word"
begin

unbundle bit_operations_syntax

section \<open>Cells and bytes\<close>

text \<open>
  A cell (\<^verbatim>\<open>union p4_cell\<close>) is one machine word that is read as \<^verbatim>\<open>P4_Int\<close>,
  \<^verbatim>\<open>P4_Uint\<close> or as a pointer.  The model fixes the LP64 layout: 64-bit cells, 8 bytes per
  cell, 8 bits per byte.  Pointers are cells as well; \<open>0\<close> is \<^verbatim>\<open>NULL\<close>.
  A byte (\<^verbatim>\<open>P4_Char\<close>, an unsigned char) is a HOL \<^typ>\<open>char\<close>; \<^verbatim>\<open>int\<close> arguments of the
  C library's character functions are \<^typ>\<open>int\<close>.
\<close>

type_synonym cell = "64 word"

definition P4_CELL :: cell where
  "P4_CELL = 8"

definition CHAR_BIT :: nat where
  "CHAR_BIT = 8"

section \<open>Conversion API\<close>

text \<open>The C library's \<^verbatim>\<open>toupper\<close>, \<^verbatim>\<open>tolower\<close> and \<^verbatim>\<open>isdigit\<close> in the C locale.\<close>

definition toupper :: "int \<Rightarrow> int" where
  "toupper ch = (if 97 \<le> ch \<and> ch \<le> 122 then ch - 32 else ch)"

definition tolower :: "int \<Rightarrow> int" where
  "tolower ch = (if 65 \<le> ch \<and> ch \<le> 90 then ch + 32 else ch)"

definition isdigit :: "int \<Rightarrow> bool" where
  "isdigit ch = (48 \<le> ch \<and> ch \<le> 57)"

text \<open>\<^verbatim>\<open>p4CharLiteral\<close>: the value of a backslash escape.\<close>

definition p4CharLiteral :: "int \<Rightarrow> int" where
  "p4CharLiteral ch =
     (if ch = 97 then 7
      else if ch = 98 then 8
      else if ch = 101 then 27
      else if ch = 102 then 12
      else if ch = 110 then 10
      else if ch = 114 then 13
      else if ch = 115 then 32
      else if ch = 116 then 9
      else if ch = 118 then 11
      else if ch = 122 then 0
      else if ch = 48 then 0
      else if ch = 63 then 127
      else ch)"

text \<open>\<^verbatim>\<open>p4Base36\<close>: the value of a digit byte, 127 for a byte that is no digit.\<close>

definition p4Base36 :: "int \<Rightarrow> int" where
  "p4Base36 digit =
     (if 48 \<le> digit \<and> digit \<le> 57 then digit - 48
      else if 65 \<le> toupper digit \<and> toupper digit \<le> 90 then toupper digit - 65 + 10
      else 127)"

text \<open>
  The result of \<^verbatim>\<open>p4StrNum\<close>: the returned count of bytes consumed with the two out
  parameters \<^verbatim>\<open>*out\<close> and \<^verbatim>\<open>*is_float\<close>, or \<^verbatim>\<open>raise(SIGFPE)\<close>, which the
  signal handler \<^verbatim>\<open>sig_int\<close> turns into a throw and which does not return.
\<close>

datatype strnum = Returned int cell bool | Raise_SIGFPE

text \<open>How the digit loop of \<^verbatim>\<open>p4StrNum\<close> is left.\<close>

datatype digits_exit = Loop_done cell int | Float_seen | Float_fault

text \<open>
  The \<^verbatim>\<open>for\<close> loop of \<^verbatim>\<open>p4StrNum\<close> over the bytes from \<open>offset\<close> on; the first
  argument is what is left of the slice at \<open>offset\<close>.  \<open>num * base + digit\<close> is computed
  in \<^verbatim>\<open>P4_Uint\<close> and wraps.
\<close>

fun p4StrNum_digits :: "string \<Rightarrow> cell \<Rightarrow> cell \<Rightarrow> int \<Rightarrow> digits_exit" where
  "p4StrNum_digits [] base num offset = Loop_done num offset"
| "p4StrNum_digits (c # cs) base num offset =
     (let digit = p4Base36 (of_char c) in
      if base \<le> word_of_int digit then
        (if c = CHR ''.'' \<or> toupper (of_char c) = 69 then
           (if base \<noteq> 10 then Float_fault else Float_seen)
         else Loop_done num offset)
      else p4StrNum_digits cs base (num * base + word_of_int digit) (offset + 1))"

text \<open>
  The \<^verbatim>\<open>switch (str.string[0])\<close> of \<^verbatim>\<open>p4StrNum\<close> for a first byte that is no
  quote: the base and the offset behind the prefix.
\<close>

definition p4StrNum_prefix :: "string \<Rightarrow> cell \<Rightarrow> cell \<times> nat" where
  "p4StrNum_prefix str base =
     (if str ! 0 = CHR ''$'' then (16, 1)
      else if str ! 0 = CHR ''#'' then (10, 1)
      else if str ! 0 = CHR ''%'' then (2, 1)
      else if str ! 0 = CHR ''0'' then
        (if 2 < length str \<and> tolower (of_char (str ! 1)) = 120 then (16, 2)
         else if 1 < length str \<and> (isdigit (of_char (str ! 1)) \<or> str ! 1 = CHR ''-'')
         then (8, 1)
         else (base, 0))
      else (base, 0))"

text \<open>The \<^verbatim>\<open>if\<close> on the sign: \<^verbatim>\<open>negate\<close> and the offset behind the sign.\<close>

definition p4StrNum_negate :: "string \<Rightarrow> nat \<Rightarrow> bool \<times> nat" where
  "p4StrNum_negate str offset =
     (if offset < length str \<and> str ! offset = CHR ''-'' then (True, offset + 1)
      else (False, offset))"

text \<open>
  \<^verbatim>\<open>p4StrNum\<close>.  The host's \<^verbatim>\<open>strtod\<close> is a parameter: it is applied to the memory at
  the start of the slice and gives the bits of the double and the count of bytes it read.
\<close>

definition p4StrNum :: "(string \<Rightarrow> cell \<times> int) \<Rightarrow> string \<Rightarrow> cell \<Rightarrow> strnum" where
  "p4StrNum strtod str base0 =
     (if length str = 0 then Returned 0 0 False
      else if str ! 0 = CHR 0x27 then
        (if length str = 3 \<and> str ! 2 = CHR 0x27 then
           Returned (int (length str)) (word_of_int (of_char (str ! 1))) False
         else if length str = 4 \<and> str ! 1 = CHR 0x5C \<and> str ! 3 = CHR 0x27 then
           Returned (int (length str)) (word_of_int (p4CharLiteral (of_char (str ! 2)))) False
         else Returned 0 0 False)
      else
        let (base, offset) = p4StrNum_prefix str base0;
            (negate, offset) = p4StrNum_negate str offset
        in case p4StrNum_digits (drop offset str) base 0 (int offset) of
             Float_fault \<Rightarrow> Raise_SIGFPE
           | Float_seen \<Rightarrow> Returned (snd (strtod str)) (fst (strtod str)) True
           | Loop_done num offset \<Rightarrow> Returned offset (if negate then - num else num) False)"

section \<open>The numeric literal parser as the specification words it\<close>

text \<open>
  The parser in the words of the specification.  The prefix selects the radix: \<open>$\<close> 16,
  \<open>#\<close> 10, \<open>%\<close> 2, \<open>0x\<close> or \<open>0X\<close> 16, and \<open>0\<close> before a digit or \<open>-\<close> selects 8 (the
  \<open>0\<close> is the prefix); without a prefix the radix is the current one.
\<close>

definition spec_prefix :: "string \<Rightarrow> cell \<Rightarrow> cell \<times> nat" where
  "spec_prefix str radix0 =
     (if take 1 str = ''$'' then (16, 1)
      else if take 1 str = ''#'' then (10, 1)
      else if take 1 str = ''%'' then (2, 1)
      else if take 2 str = ''0x'' \<or> take 2 str = ''0X'' then (16, 2)
      else if take 1 str = ''0'' \<and> 1 < length str
              \<and> (isdigit (of_char (str ! 1)) \<or> str ! 1 = CHR ''-'') then (8, 1)
      else (radix0, 0))"

text \<open>An optional single leading \<open>-\<close>.\<close>

definition spec_sign :: "string \<Rightarrow> bool \<times> string" where
  "spec_sign rest = (if take 1 rest = ''-'' then (True, drop 1 rest) else (False, rest))"

text \<open>
  The digits in the chosen base, mapped by \<open>p4Base36\<close>, up to the first byte that is no
  digit of the base: the value and the count of digits.
\<close>

fun spec_digits :: "cell \<Rightarrow> string \<Rightarrow> cell \<Rightarrow> cell \<times> nat" where
  "spec_digits base [] num = (num, 0)"
| "spec_digits base (c # cs) num =
     (if word_of_int (p4Base36 (of_char c)) < base
      then (let (v, k) = spec_digits base cs (num * base + word_of_int (p4Base36 (of_char c)))
            in (v, Suc k))
      else (num, 0))"

text \<open>The count of bytes consumed and the value, with the sign applied.\<close>

definition spec_StrNum :: "string \<Rightarrow> cell \<Rightarrow> int \<times> cell" where
  "spec_StrNum str radix0 =
     (let (base, k) = spec_prefix str radix0;
          (negate, rest) = spec_sign (drop k str);
          (num, m) = spec_digits base rest 0
      in (int (k + (if negate then 1 else 0) + m), if negate then - num else num))"

text \<open>
  Whether the digits stop at a byte of a floating-point literal: the first byte that is no
  digit of the base is \<open>.\<close>, \<open>E\<close> or \<open>e\<close>.
\<close>

fun stops_at_float :: "cell \<Rightarrow> string \<Rightarrow> bool" where
  "stops_at_float base [] = False"
| "stops_at_float base (c # cs) =
     (if word_of_int (p4Base36 (of_char c)) < base then stops_at_float base cs
      else (c = CHR ''.'' \<or> c = CHR ''E'' \<or> c = CHR ''e''))"

definition spec_float_stop :: "string \<Rightarrow> cell \<Rightarrow> bool" where
  "spec_float_stop str radix0 =
     (let (base, k) = spec_prefix str radix0;
          (negate, rest) = spec_sign (drop k str)
      in stops_at_float base rest)"

section \<open>Stacks\<close>

text \<open>
  \<^verbatim>\<open>P4_Stack\<close> is an array of \<open>size + 1\<close> cells at \<^verbatim>\<open>base\<close> and a pointer \<^verbatim>\<open>top\<close> to
  the last element.  The model indexes the cells from \<^verbatim>\<open>base\<close>: \<open>stk_top\<close> is
  \<^verbatim>\<open>top - base\<close>, so the empty stack has \<open>stk_top = -1\<close>, and \<open>stk_cells i\<close> is
  \<^verbatim>\<open>base[i]\<close>.  The macros do no bounds check, and neither does the model: an index
  outside the array is the memory next to it.
\<close>

record P4_Stack =
  stk_size :: cell
  stk_top :: int
  stk_cells :: "int \<Rightarrow> cell"

definition P4_PICK :: "P4_Stack \<Rightarrow> int \<Rightarrow> cell" where
  "P4_PICK stack offset = stk_cells stack (stk_top stack - offset)"

definition P4_TOP :: "P4_Stack \<Rightarrow> cell" where
  "P4_TOP stack = stk_cells stack (stk_top stack)"

text \<open>An assignment to \<^verbatim>\<open>P4_TOP(stack)\<close>.\<close>

definition P4_TOP_set :: "P4_Stack \<Rightarrow> cell \<Rightarrow> P4_Stack" where
  "P4_TOP_set stack x = stack\<lparr>stk_cells := (stk_cells stack)(stk_top stack := x)\<rparr>"

definition P4_POP :: "P4_Stack \<Rightarrow> cell \<times> P4_Stack" where
  "P4_POP stack = (stk_cells stack (stk_top stack), stack\<lparr>stk_top := stk_top stack - 1\<rparr>)"

definition P4_PUSH :: "P4_Stack \<Rightarrow> cell \<Rightarrow> P4_Stack" where
  "P4_PUSH stack x =
     stack\<lparr>stk_top := stk_top stack + 1,
           stk_cells := (stk_cells stack)(stk_top stack + 1 := x)\<rparr>"

definition P4_RESET :: "P4_Stack \<Rightarrow> P4_Stack" where
  "P4_RESET stack = stack\<lparr>stk_top := - 1\<rparr>"

definition P4_LENGTH :: "P4_Stack \<Rightarrow> int" where
  "P4_LENGTH stack = stk_top stack + 1"

definition P4_DROP :: "P4_Stack \<Rightarrow> int \<Rightarrow> P4_Stack" where
  "P4_DROP stack n = stack\<lparr>stk_top := stk_top stack - n\<rparr>"

section \<open>Words\<close>

text \<open>
  The code field of a word is the address of a label of \<^verbatim>\<open>p4Repl\<close>.  These are the
  labels whose code is embedded below.
\<close>

datatype P4_Code =
    L_enter | L_exit | L_call | L_lit
  | L_noname | L_colon | L_semicolon | L_marker | L_rm_marker
  | L_create | L_does | L_do_does | L_body | L_data_field
  | L_allot | L_unused | L_allocate | L_free
  | L_drop | L_dup | L_to_rs | L_from_rs
  | L_add | L_sub | L_mul

text \<open>
  \<^verbatim>\<open>struct p4_word\<close> as \<^verbatim>\<open>post4.c\<close> uses it: \<^verbatim>\<open>data\<close> is a pointer into the data
  space, \<^verbatim>\<open>ndata\<close> counts address units.
\<close>

record P4_Word =
  prev :: cell
  name :: string
  bits :: cell
  code :: P4_Code
  ndata :: cell
  data :: cell

definition P4_BIT_IMM :: cell where "P4_BIT_IMM = 0x0001"
definition P4_BIT_CREATED :: cell where "P4_BIT_CREATED = 0x0002"
definition P4_BIT_HIDDEN :: cell where "P4_BIT_HIDDEN = 0x0004"
definition P4_BIT_COMPILE :: cell where "P4_BIT_COMPILE = 0x0008"

definition P4_WORD_WAS_CREATED :: "P4_Word \<Rightarrow> bool" where
  "P4_WORD_WAS_CREATED w = (bits w AND P4_BIT_CREATED = P4_BIT_CREATED)"

definition P4_WORD_SET_CREATED :: "P4_Word \<Rightarrow> P4_Word" where
  "P4_WORD_SET_CREATED w = w\<lparr>bits := bits w OR P4_BIT_CREATED\<rparr>"

definition P4_WORD_IS_HIDDEN :: "P4_Word \<Rightarrow> bool" where
  "P4_WORD_IS_HIDDEN w = (bits w AND P4_BIT_HIDDEN = P4_BIT_HIDDEN)"

definition P4_WORD_SET_HIDDEN :: "P4_Word \<Rightarrow> P4_Word" where
  "P4_WORD_SET_HIDDEN w = w\<lparr>bits := bits w OR P4_BIT_HIDDEN\<rparr>"

definition P4_WORD_CLEAR_HIDDEN :: "P4_Word \<Rightarrow> P4_Word" where
  "P4_WORD_CLEAR_HIDDEN w = w\<lparr>bits := bits w AND NOT P4_BIT_HIDDEN\<rparr>"

definition P4_ALIGN_SIZE :: "cell \<Rightarrow> cell \<Rightarrow> cell" where
  "P4_ALIGN_SIZE sz pow2 = (sz + (pow2 - 1)) AND - pow2"

definition P4_CELL_ALIGN :: "cell \<Rightarrow> cell" where
  "P4_CELL_ALIGN nbytes = P4_ALIGN_SIZE nbytes P4_CELL"

text \<open>
  Modelled from the spec: the macro \<^verbatim>\<open>P4_ALIGN_BY\<close> is not in the sources.  The spec has
  word creation and \<^verbatim>\<open>align\<close> advance \<^verbatim>\<open>here\<close> to the next cell boundary, so the macro
  is the count of bytes from its argument up to that boundary.
\<close>

definition P4_ALIGN_BY :: "cell \<Rightarrow> cell" where
  "P4_ALIGN_BY p = P4_CELL_ALIGN p - p"

section \<open>Context\<close>

text \<open>
  \<^verbatim>\<open>struct p4_ctx\<close>: the fields the embedded code reads or writes.  Three more fields
  stand for the memory the context points into: \<open>word_heap\<close> gives the word record at each
  address where a word lives (the static built-in words and the ones from \<^verbatim>\<open>malloc\<close>),
  \<open>memory\<close> the cell stored at an address of the data space or of a static array, and
  \<open>blocks\<close> the addresses of the blocks that \<^verbatim>\<open>ALLOCATE\<close> got from \<^verbatim>\<open>malloc\<close> and
  that are not freed yet.
\<close>

record P4_Ctx =
  ds :: P4_Stack
  rs :: P4_Stack
  fs :: P4_Stack
  state :: cell
  words :: cell
  radix :: cell
  here :: cell
  endp :: cell
  word_heap :: "cell \<rightharpoonup> P4_Word"
  memory :: "cell \<Rightarrow> cell"
  blocks :: "cell set"

definition P4_STATE_INTERPRET :: cell where "P4_STATE_INTERPRET = 0"
definition P4_STATE_COMPILE :: cell where "P4_STATE_COMPILE = - 1"

definition P4_THROW_OK :: int where "P4_THROW_OK = 0"
definition P4_THROW_ABORT :: int where "P4_THROW_ABORT = - 1"
definition P4_THROW_ABORT_MSG :: int where "P4_THROW_ABORT_MSG = - 2"
definition P4_THROW_DS_OVER :: int where "P4_THROW_DS_OVER = - 3"
definition P4_THROW_DS_UNDER :: int where "P4_THROW_DS_UNDER = - 4"
definition P4_THROW_RS_OVER :: int where "P4_THROW_RS_OVER = - 5"
definition P4_THROW_RS_UNDER :: int where "P4_THROW_RS_UNDER = - 6"
definition P4_THROW_LOOP_DEPTH :: int where "P4_THROW_LOOP_DEPTH = - 7"
definition P4_THROW_SIGSEGV :: int where "P4_THROW_SIGSEGV = - 9"
definition P4_THROW_UNDEFINED :: int where "P4_THROW_UNDEFINED = - 13"
definition P4_THROW_BAD_CONTROL :: int where "P4_THROW_BAD_CONTROL = - 22"
definition P4_THROW_COMPILING :: int where "P4_THROW_COMPILING = - 29"
definition P4_THROW_NOT_CREATED :: int where "P4_THROW_NOT_CREATED = - 31"
definition P4_THROW_FS_OVER :: int where "P4_THROW_FS_OVER = - 44"
definition P4_THROW_FS_UNDER :: int where "P4_THROW_FS_UNDER = - 45"
definition P4_THROW_SIGFPE :: int where "P4_THROW_SIGFPE = - 55"
definition P4_THROW_QUIT :: int where "P4_THROW_QUIT = - 56"
definition P4_THROW_ALLOCATE :: int where "P4_THROW_ALLOCATE = - 59"
definition P4_THROW_RESIZE :: int where "P4_THROW_RESIZE = - 61"

text \<open>
  What a piece of code comes to: it runs to its end with a value, or it leaves by
  \<^verbatim>\<open>LONGJMP(ctx->on_throw, code)\<close> with the context as it is at that moment, or it
  does not come back at all (it dereferences a pointer to no live word, or loops for ever).
\<close>

datatype 'a res = Done 'a | Thrown int P4_Ctx | Fault

text \<open>
  What the code takes from outside the context: the macro \<^verbatim>\<open>MEMSET\<close> (not in the
  sources; any function from the memory, the start address and the count to the new
  memory), the host's \<^verbatim>\<open>strtod\<close>, whether plain \<^verbatim>\<open>char\<close> is signed, the addresses of the
  static words \<^verbatim>\<open>w_lit\<close> and \<^verbatim>\<open>w_exit\<close>, and the answers of the environment during
  one primitive: the name that \<^verbatim>\<open>p4ParseName(&ctx->input)\<close> parses, the pointer that
  \<^verbatim>\<open>malloc\<close> returns for a new word (\<open>0\<close> is \<^verbatim>\<open>NULL\<close>), whether \<^verbatim>\<open>strndup\<close>
  succeeds, and the pointer that \<^verbatim>\<open>malloc\<close> returns to \<^verbatim>\<open>ALLOCATE\<close>.
\<close>

record P4_Host =
  MEMSET :: "(cell \<Rightarrow> cell) \<Rightarrow> cell \<Rightarrow> cell \<Rightarrow> (cell \<Rightarrow> cell)"
  strtod :: "string \<Rightarrow> cell \<times> int"
  char_signed :: bool
  w_lit :: cell
  w_exit :: cell
  parse_name :: string
  malloc_word :: cell
  strndup_ok :: bool
  malloc_block :: cell

section \<open>Core\<close>

text \<open>\<^verbatim>\<open>p4WordFree\<close>: the word at the address is no longer live.\<close>

definition p4WordFree :: "(cell \<rightharpoonup> P4_Word) \<Rightarrow> cell \<Rightarrow> (cell \<rightharpoonup> P4_Word)" where
  "p4WordFree heap word = (if word \<noteq> 0 then heap(word := None) else heap)"

text \<open>
  \<^verbatim>\<open>p4Allot\<close>.  The two comparisons are comparisons of pointers \<^verbatim>\<open>ctx->here + n\<close> with
  \<open>n\<close> a \<^verbatim>\<open>P4_Int\<close>: they are taken on the integers, address plus signed count.
\<close>

definition p4Allot :: "P4_Host \<Rightarrow> P4_Ctx \<Rightarrow> cell \<Rightarrow> (cell \<times> P4_Ctx) res" where
  "p4Allot h ctx n =
     (if uint (endp ctx) \<le> uint (here ctx) + sint n then Thrown P4_THROW_ALLOCATE ctx
      else case word_heap ctx (words ctx) of
        None \<Rightarrow> Fault
      | Some word \<Rightarrow>
          if uint (here ctx) + sint n < uint (data word) then Thrown P4_THROW_RESIZE ctx
          else Done (here ctx,
                 ctx\<lparr>memory := MEMSET h (memory ctx) (here ctx) n,
                     word_heap := (word_heap ctx)(words ctx \<mapsto> word\<lparr>ndata := ndata word + n\<rparr>),
                     here := here ctx + n\<rparr>))"

text \<open>\<^verbatim>\<open>p4WordCreate\<close>; the macro \<^verbatim>\<open>CHECK_ADDR\<close> is not in the sources and is left out.\<close>

definition p4WordCreate ::
  "P4_Host \<Rightarrow> P4_Ctx \<Rightarrow> string \<Rightarrow> P4_Code \<Rightarrow> (cell \<times> P4_Ctx) res" where
  "p4WordCreate h ctx nm cd =
     (if malloc_word h = 0 then Thrown P4_THROW_ALLOCATE ctx
      else case p4Allot h ctx (P4_ALIGN_BY (here ctx)) of
        Fault \<Rightarrow> Fault
      | Thrown c ctx' \<Rightarrow> Thrown c ctx'
      | Done (start, ctx1) \<Rightarrow>
          if \<not> strndup_ok h then Thrown P4_THROW_ALLOCATE ctx1
          else
            let word = \<lparr>prev = words ctx1, name = nm, bits = 0, code = cd, ndata = 0,
                        data = here ctx1\<rparr>
            in Done (malloc_word h,
                 ctx1\<lparr>word_heap := (word_heap ctx1)(malloc_word h \<mapsto> word),
                      words := malloc_word h\<rparr>))"

text \<open>\<^verbatim>\<open>p4WordAppend\<close>.\<close>

definition p4WordAppend :: "P4_Host \<Rightarrow> P4_Ctx \<Rightarrow> cell \<Rightarrow> P4_Ctx res" where
  "p4WordAppend h ctx x =
     (case word_heap ctx (words ctx) of
        None \<Rightarrow> Fault
      | Some word \<Rightarrow>
          (case p4Allot h ctx (P4_ALIGN_BY (ndata word)) of
             Fault \<Rightarrow> Fault
           | Thrown c ctx' \<Rightarrow> Thrown c ctx'
           | Done (start, ctx1) \<Rightarrow>
               (case p4Allot h ctx1 P4_CELL of
                  Fault \<Rightarrow> Fault
                | Thrown c ctx' \<Rightarrow> Thrown c ctx'
                | Done (here', ctx2) \<Rightarrow> Done (ctx2\<lparr>memory := (memory ctx2)(here' := x)\<rparr>))))"

text \<open>
  \<^verbatim>\<open>p4StackCanPopPush\<close> (with \<^verbatim>\<open>USE_STACK_CHECKS\<close>).  The stack is given by name, for
  the comparison of the pointer with \<^verbatim>\<open>&ctx->rs\<close> and \<^verbatim>\<open>&ctx->fs\<close>.  In
  \<^verbatim>\<open>stack->size < length + push - pop\<close> the right side is converted to \<^verbatim>\<open>size_t\<close>.
\<close>

datatype stack_id = DS | RS | FS

definition stack_of :: "P4_Ctx \<Rightarrow> stack_id \<Rightarrow> P4_Stack" where
  "stack_of ctx sid = (case sid of DS \<Rightarrow> ds ctx | RS \<Rightarrow> rs ctx | FS \<Rightarrow> fs ctx)"

definition p4StackCanPopPush :: "P4_Ctx \<Rightarrow> stack_id \<Rightarrow> int \<Rightarrow> int \<Rightarrow> unit res" where
  "p4StackCanPopPush ctx sid pop push =
     (let stack = stack_of ctx sid;
          over = (case sid of DS \<Rightarrow> P4_THROW_DS_OVER | RS \<Rightarrow> P4_THROW_RS_OVER
                  | FS \<Rightarrow> P4_THROW_FS_OVER);
          under = (case sid of DS \<Rightarrow> P4_THROW_DS_UNDER | RS \<Rightarrow> P4_THROW_RS_UNDER
                   | FS \<Rightarrow> P4_THROW_FS_UNDER);
          length = stk_top stack + 1
      in if length < pop then Thrown under ctx
         else if stk_size stack < word_of_int (length + push - pop) then Thrown over ctx
         else Done ())"

text \<open>
  \<^verbatim>\<open>p4Exception\<close>: the context it leaves (it returns its argument \<open>code\<close>; what it
  prints is not modelled).
\<close>

definition p4Exception :: "P4_Ctx \<Rightarrow> int \<Rightarrow> P4_Ctx res" where
  "p4Exception ctx cd =
     (if cd = P4_THROW_ABORT_MSG \<or> cd = P4_THROW_ABORT \<or> cd = P4_THROW_QUIT
         \<or> cd = P4_THROW_OK
      then Done ctx
      else case word_heap ctx (words ctx) of
        None \<Rightarrow> Fault
      | Some word \<Rightarrow>
          if P4_WORD_IS_HIDDEN word then
            Done (ctx\<lparr>state := P4_STATE_INTERPRET,
                      words := prev word,
                      here := data word,
                      word_heap := p4WordFree (word_heap ctx) (words ctx)\<rparr>)
          else Done ctx)"

text \<open>
  The landing pad of \<^verbatim>\<open>p4Repl\<close>: the \<^verbatim>\<open>switch (rc)\<close> that runs when \<^verbatim>\<open>SETJMP\<close>
  returns a throw code \<open>rc \<noteq> 0\<close>, with its fall-through from case to case (float stack
  configured).
\<close>

definition p4Repl_on_throw :: "P4_Ctx \<Rightarrow> int \<Rightarrow> P4_Ctx" where
  "p4Repl_on_throw ctx rc =
     (let ctx1 =
            (if rc = P4_THROW_ABORT \<or> rc = P4_THROW_ABORT_MSG \<or> rc = P4_THROW_DS_OVER
                \<or> rc = P4_THROW_DS_UNDER
             then ctx\<lparr>fs := P4_RESET (fs ctx), ds := P4_RESET (ds ctx)\<rparr>
             else ctx);
          ctx2 =
            (if rc = P4_THROW_ABORT \<or> rc = P4_THROW_ABORT_MSG \<or> rc = P4_THROW_DS_OVER
                \<or> rc = P4_THROW_DS_UNDER
                \<or> rc = P4_THROW_QUIT \<or> rc = P4_THROW_SIGSEGV \<or> rc = P4_THROW_RS_OVER
                \<or> rc = P4_THROW_RS_UNDER \<or> rc = P4_THROW_UNDEFINED
                \<or> rc = P4_THROW_LOOP_DEPTH
             then ctx1\<lparr>rs := P4_RESET (rs ctx1)\<rparr>
             else ctx1)
      in ctx2\<lparr>state := P4_STATE_INTERPRET\<rparr>)"

text \<open>
  The branch of the loop of \<^verbatim>\<open>p4Repl\<close> for a token \<open>str\<close> that \<^verbatim>\<open>p4FindName\<close> did not
  find (\<^verbatim>\<open>word == NULL\<close>).
\<close>

definition p4Repl_number :: "P4_Host \<Rightarrow> P4_Ctx \<Rightarrow> string \<Rightarrow> P4_Ctx res" where
  "p4Repl_number h ctx str =
     (case p4StrNum (strtod h) str (radix ctx) of
        Raise_SIGFPE \<Rightarrow> Thrown P4_THROW_SIGFPE ctx
      | Returned n x is_float \<Rightarrow>
          if n \<noteq> int (length str) then Thrown P4_THROW_UNDEFINED ctx
          else if state ctx = P4_STATE_COMPILE then
            (case p4WordAppend h ctx (w_lit h) of
               Fault \<Rightarrow> Fault
             | Thrown c ctx' \<Rightarrow> Thrown c ctx'
             | Done ctx1 \<Rightarrow> p4WordAppend h ctx1 x)
          else if is_float then
            (case p4StackCanPopPush ctx FS 0 1 of
               Fault \<Rightarrow> Fault
             | Thrown c ctx' \<Rightarrow> Thrown c ctx'
             | Done u \<Rightarrow> Done (ctx\<lparr>fs := P4_PUSH (fs ctx) x\<rparr>))
          else
            (case p4StackCanPopPush ctx DS 0 1 of
               Fault \<Rightarrow> Fault
             | Thrown c ctx' \<Rightarrow> Thrown c ctx'
             | Done u \<Rightarrow> Done (ctx\<lparr>ds := P4_PUSH (ds ctx) x\<rparr>)))"

section \<open>The primitives of \<^verbatim>\<open>p4Repl\<close>\<close>

text \<open>
  The code at a label runs from the label to \<^verbatim>\<open>NEXT\<close>.  It takes the context and the
  locals \<^verbatim>\<open>ip\<close> and, where it reads it, \<^verbatim>\<open>w\<close> (the execution token that \<^verbatim>\<open>_next\<close> or
  \<^verbatim>\<open>_execute\<close> loaded), and gives the context and \<^verbatim>\<open>ip\<close> with which \<^verbatim>\<open>_next\<close> is
  entered.
\<close>

text \<open>A macro that writes to the word behind a pointer.\<close>

definition word_modify :: "P4_Ctx \<Rightarrow> cell \<Rightarrow> (P4_Word \<Rightarrow> P4_Word) \<Rightarrow> P4_Ctx res" where
  "word_modify ctx p f =
     (case word_heap ctx p of
        None \<Rightarrow> Fault
      | Some word \<Rightarrow> Done (ctx\<lparr>word_heap := (word_heap ctx)(p \<mapsto> f word)\<rparr>))"

definition at_enter :: "P4_Ctx \<Rightarrow> cell \<Rightarrow> cell \<Rightarrow> (P4_Ctx \<times> cell) res" where
  "at_enter ctx ip w =
     (case p4StackCanPopPush ctx RS 0 1 of
        Fault \<Rightarrow> Fault
      | Thrown c ctx' \<Rightarrow> Thrown c ctx'
      | Done u \<Rightarrow>
          (case word_heap ctx w of
             None \<Rightarrow> Fault
           | Some word \<Rightarrow> Done (ctx\<lparr>rs := P4_PUSH (rs ctx) ip\<rparr>, data word)))"

definition at_exit :: "P4_Ctx \<Rightarrow> cell \<Rightarrow> (P4_Ctx \<times> cell) res" where
  "at_exit ctx ip =
     (case p4StackCanPopPush ctx RS 1 0 of
        Fault \<Rightarrow> Fault
      | Thrown c ctx' \<Rightarrow> Thrown c ctx'
      | Done u \<Rightarrow> (let (x, rs1) = P4_POP (rs ctx) in Done (ctx\<lparr>rs := rs1\<rparr>, x)))"

definition at_call :: "P4_Ctx \<Rightarrow> cell \<Rightarrow> (P4_Ctx \<times> cell) res" where
  "at_call ctx ip =
     (let w = memory ctx ip in
      case p4StackCanPopPush ctx RS 0 1 of
        Fault \<Rightarrow> Fault
      | Thrown c ctx' \<Rightarrow> Thrown c ctx'
      | Done u \<Rightarrow> Done (ctx\<lparr>rs := P4_PUSH (rs ctx) (ip + P4_CELL)\<rparr>, ip + w))"

definition at_lit :: "P4_Ctx \<Rightarrow> cell \<Rightarrow> (P4_Ctx \<times> cell) res" where
  "at_lit ctx ip =
     (let w = memory ctx ip in Done (ctx\<lparr>ds := P4_PUSH (ds ctx) w\<rparr>, ip + P4_CELL))"

text \<open>
  The value that \<^verbatim>\<open>_do_colon\<close> and \<^verbatim>\<open>_semicolon\<close> compute,
  \<^verbatim>\<open>((char)P4_LENGTH(ctx->rs) << CHAR_BIT) | (char)P4_LENGTH(ctx->ds)\<close>, assigned to the
  \<^verbatim>\<open>P4_Uint\<close> of a cell.  \<open>to_char\<close> is the conversion to plain \<^verbatim>\<open>char\<close>, signed or not
  as the platform has it, and the operands of \<^verbatim>\<open><<\<close> and \<^verbatim>\<open>|\<close> are promoted to
  \<^verbatim>\<open>int\<close>.
\<close>

definition to_char :: "bool \<Rightarrow> int \<Rightarrow> int" where
  "to_char is_signed v = (if is_signed then (v + 128) mod 256 - 128 else v mod 256)"

definition control_sentinel :: "P4_Host \<Rightarrow> P4_Ctx \<Rightarrow> cell" where
  "control_sentinel h ctx =
     word_of_int
       (push_bit CHAR_BIT (to_char (char_signed h) (P4_LENGTH (rs ctx)))
        OR to_char (char_signed h) (P4_LENGTH (ds ctx)))"

definition at_do_colon :: "P4_Host \<Rightarrow> P4_Ctx \<Rightarrow> cell \<Rightarrow> string \<Rightarrow> (P4_Ctx \<times> cell) res" where
  "at_do_colon h ctx ip str =
     (let w = control_sentinel h ctx;
          ctx1 = ctx\<lparr>ds := P4_PUSH (ds ctx) w, state := P4_STATE_COMPILE\<rparr>
      in case p4WordCreate h ctx1 str L_enter of
           Fault \<Rightarrow> Fault
         | Thrown c ctx' \<Rightarrow> Thrown c ctx'
         | Done (word, ctx2) \<Rightarrow>
             (case word_modify ctx2 word P4_WORD_SET_HIDDEN of
                Fault \<Rightarrow> Fault
              | Thrown c ctx' \<Rightarrow> Thrown c ctx'
              | Done ctx3 \<Rightarrow> Done (ctx3, ip)))"

definition at_noname :: "P4_Host \<Rightarrow> P4_Ctx \<Rightarrow> cell \<Rightarrow> (P4_Ctx \<times> cell) res" where
  "at_noname h ctx ip = at_do_colon h ctx ip []"

definition at_colon :: "P4_Host \<Rightarrow> P4_Ctx \<Rightarrow> cell \<Rightarrow> (P4_Ctx \<times> cell) res" where
  "at_colon h ctx ip =
     (if state ctx = P4_STATE_COMPILE then Thrown P4_THROW_COMPILING ctx
      else at_do_colon h ctx ip (parse_name h))"

definition at_semicolon :: "P4_Host \<Rightarrow> P4_Ctx \<Rightarrow> cell \<Rightarrow> (P4_Ctx \<times> cell) res" where
  "at_semicolon h ctx ip =
     (let (w, ds1) = P4_POP (ds ctx);
          ctx1 = ctx\<lparr>ds := ds1\<rparr>;
          x = control_sentinel h ctx1
      in if w \<noteq> x then Thrown P4_THROW_BAD_CONTROL ctx1
         else case p4WordAppend h ctx1 (w_exit h) of
           Fault \<Rightarrow> Fault
         | Thrown c ctx' \<Rightarrow> Thrown c ctx'
         | Done ctx2 \<Rightarrow>
             (case word_modify ctx2 (words ctx2) P4_WORD_CLEAR_HIDDEN of
                Fault \<Rightarrow> Fault
              | Thrown c ctx' \<Rightarrow> Thrown c ctx'
              | Done ctx3 \<Rightarrow>
                  (let ctx4 = ctx3\<lparr>state := P4_STATE_INTERPRET\<rparr> in
                   case word_heap ctx4 (words ctx4) of
                     None \<Rightarrow> Fault
                   | Some word \<Rightarrow>
                       if length (name word) = 0
                       then Done (ctx4\<lparr>ds := P4_PUSH (ds ctx4) (words ctx4)\<rparr>, ip)
                       else Done (ctx4, ip))))"

definition at_marker :: "P4_Host \<Rightarrow> P4_Ctx \<Rightarrow> cell \<Rightarrow> (P4_Ctx \<times> cell) res" where
  "at_marker h ctx ip =
     (case p4WordCreate h ctx (parse_name h) L_rm_marker of
        Fault \<Rightarrow> Fault
      | Thrown c ctx' \<Rightarrow> Thrown c ctx'
      | Done (word, ctx1) \<Rightarrow> Done (ctx1, ip))"

text \<open>
  The \<^verbatim>\<open>for\<close> loop of \<^verbatim>\<open>_rm_marker\<close>: from \<open>word\<close> along the \<^verbatim>\<open>prev\<close> links up to the
  marker \<open>x\<close>, freeing each word, and giving the heap and the word at which it stops.  It
  gives \<open>None\<close> when it does not come back: the list never reaches \<open>x\<close>, so that the loop
  runs for ever or reads \<^verbatim>\<open>prev\<close> through a pointer to no live word.
\<close>

partial_function (option) rm_marker_loop ::
  "(cell \<rightharpoonup> P4_Word) \<Rightarrow> cell \<Rightarrow> cell \<Rightarrow> (cell \<rightharpoonup> P4_Word) option" where
  "rm_marker_loop heap word x =
     (if word = x then Some heap
      else case heap word of
        None \<Rightarrow> None
      | Some wd \<Rightarrow> rm_marker_loop (p4WordFree heap word) (prev wd) x)"

definition at_rm_marker :: "P4_Ctx \<Rightarrow> cell \<Rightarrow> cell \<Rightarrow> (P4_Ctx \<times> cell) res" where
  "at_rm_marker ctx ip w =
     (case rm_marker_loop (word_heap ctx) (words ctx) w of
        None \<Rightarrow> Fault
      | Some heap \<Rightarrow>
          (case heap w of
             None \<Rightarrow> Fault
           | Some word \<Rightarrow>
               Done (ctx\<lparr>words := prev word, here := data word,
                         word_heap := p4WordFree heap w\<rparr>, ip)))"

definition at_create :: "P4_Host \<Rightarrow> P4_Ctx \<Rightarrow> cell \<Rightarrow> (P4_Ctx \<times> cell) res" where
  "at_create h ctx ip =
     (case p4WordCreate h ctx (parse_name h) L_data_field of
        Fault \<Rightarrow> Fault
      | Thrown c ctx' \<Rightarrow> Thrown c ctx'
      | Done (word, ctx1) \<Rightarrow>
          (case p4WordAppend h ctx1 0 of
             Fault \<Rightarrow> Fault
           | Thrown c ctx' \<Rightarrow> Thrown c ctx'
           | Done ctx2 \<Rightarrow>
               (case word_modify ctx2 word P4_WORD_SET_CREATED of
                  Fault \<Rightarrow> Fault
                | Thrown c ctx' \<Rightarrow> Thrown c ctx'
                | Done ctx3 \<Rightarrow> Done (ctx3, ip))))"

definition at_does :: "P4_Ctx \<Rightarrow> cell \<Rightarrow> (P4_Ctx \<times> cell) res" where
  "at_does ctx ip =
     (case word_heap ctx (words ctx) of
        None \<Rightarrow> Fault
      | Some word \<Rightarrow>
          if \<not> P4_WORD_WAS_CREATED word then Thrown P4_THROW_NOT_CREATED ctx
          else at_exit
                 (ctx\<lparr>word_heap := (word_heap ctx)(words ctx \<mapsto> word\<lparr>code := L_do_does\<rparr>),
                      memory := (memory ctx)(data word := ip)\<rparr>) ip)"

definition at_do_does :: "P4_Ctx \<Rightarrow> cell \<Rightarrow> cell \<Rightarrow> (P4_Ctx \<times> cell) res" where
  "at_do_does ctx ip w =
     (case word_heap ctx w of
        None \<Rightarrow> Fault
      | Some word \<Rightarrow>
          (let ctx1 = ctx\<lparr>ds := P4_PUSH (ds ctx) (data word + P4_CELL)\<rparr> in
           case p4StackCanPopPush ctx1 RS 0 1 of
             Fault \<Rightarrow> Fault
           | Thrown c ctx' \<Rightarrow> Thrown c ctx'
           | Done u \<Rightarrow> Done (ctx1\<lparr>rs := P4_PUSH (rs ctx1) ip\<rparr>, memory ctx1 (data word))))"

definition at_data_field :: "P4_Ctx \<Rightarrow> cell \<Rightarrow> cell \<Rightarrow> (P4_Ctx \<times> cell) res" where
  "at_data_field ctx ip w =
     (case word_heap ctx w of
        None \<Rightarrow> Fault
      | Some word \<Rightarrow> Done (ctx\<lparr>ds := P4_PUSH (ds ctx) (data word + P4_CELL)\<rparr>, ip))"

definition at_body :: "P4_Ctx \<Rightarrow> cell \<Rightarrow> (P4_Ctx \<times> cell) res" where
  "at_body ctx ip =
     (let (w, ds1) = P4_POP (ds ctx); ctx1 = ctx\<lparr>ds := ds1\<rparr> in
      case word_heap ctx1 w of
        None \<Rightarrow> Fault
      | Some word \<Rightarrow>
          if \<not> P4_WORD_WAS_CREATED word then Thrown P4_THROW_NOT_CREATED ctx1
          else at_data_field ctx1 ip w)"

definition at_allot :: "P4_Host \<Rightarrow> P4_Ctx \<Rightarrow> cell \<Rightarrow> (P4_Ctx \<times> cell) res" where
  "at_allot h ctx ip =
     (let (w, ds1) = P4_POP (ds ctx) in
      case p4Allot h (ctx\<lparr>ds := ds1\<rparr>) w of
        Fault \<Rightarrow> Fault
      | Thrown c ctx' \<Rightarrow> Thrown c ctx'
      | Done (start, ctx1) \<Rightarrow> Done (ctx1, ip))"

definition at_unused :: "P4_Ctx \<Rightarrow> cell \<Rightarrow> (P4_Ctx \<times> cell) res" where
  "at_unused ctx ip = Done (ctx\<lparr>ds := P4_PUSH (ds ctx) (endp ctx - here ctx)\<rparr>, ip)"

definition at_allocate :: "P4_Host \<Rightarrow> P4_Ctx \<Rightarrow> cell \<Rightarrow> (P4_Ctx \<times> cell) res" where
  "at_allocate h ctx ip =
     (let x = malloc_block h;
          ds1 = P4_TOP_set (ds ctx) x
      in Done (ctx\<lparr>ds := P4_PUSH ds1 (if x = 0 then 1 else 0),
                   blocks := (if x = 0 then blocks ctx else insert x (blocks ctx))\<rparr>, ip))"

definition at_free :: "P4_Ctx \<Rightarrow> cell \<Rightarrow> (P4_Ctx \<times> cell) res" where
  "at_free ctx ip =
     (let w = P4_TOP (ds ctx) in
      Done (ctx\<lparr>ds := P4_TOP_set (ds ctx) 0, blocks := blocks ctx - {w}\<rparr>, ip))"

definition at_drop :: "P4_Ctx \<Rightarrow> cell \<Rightarrow> (P4_Ctx \<times> cell) res" where
  "at_drop ctx ip = Done (ctx\<lparr>ds := P4_DROP (ds ctx) 1\<rparr>, ip)"

definition at_dup :: "P4_Ctx \<Rightarrow> cell \<Rightarrow> (P4_Ctx \<times> cell) res" where
  "at_dup ctx ip = (let w = P4_TOP (ds ctx) in Done (ctx\<lparr>ds := P4_PUSH (ds ctx) w\<rparr>, ip))"

definition at_to_rs :: "P4_Ctx \<Rightarrow> cell \<Rightarrow> (P4_Ctx \<times> cell) res" where
  "at_to_rs ctx ip =
     (let (w, ds1) = P4_POP (ds ctx); ctx1 = ctx\<lparr>ds := ds1\<rparr> in
      case p4StackCanPopPush ctx1 RS 0 1 of
        Fault \<Rightarrow> Fault
      | Thrown c ctx' \<Rightarrow> Thrown c ctx'
      | Done u \<Rightarrow> Done (ctx1\<lparr>rs := P4_PUSH (rs ctx1) w\<rparr>, ip))"

definition at_from_rs :: "P4_Ctx \<Rightarrow> cell \<Rightarrow> (P4_Ctx \<times> cell) res" where
  "at_from_rs ctx ip =
     (case p4StackCanPopPush ctx RS 1 0 of
        Fault \<Rightarrow> Fault
      | Thrown c ctx' \<Rightarrow> Thrown c ctx'
      | Done u \<Rightarrow>
          (let (w, rs1) = P4_POP (rs ctx) in
           Done (ctx\<lparr>rs := rs1, ds := P4_PUSH (ds ctx) w\<rparr>, ip)))"

definition at_add :: "P4_Ctx \<Rightarrow> cell \<Rightarrow> (P4_Ctx \<times> cell) res" where
  "at_add ctx ip =
     (let (w, ds1) = P4_POP (ds ctx) in
      Done (ctx\<lparr>ds := P4_TOP_set ds1 (P4_TOP ds1 + w)\<rparr>, ip))"

definition at_sub :: "P4_Ctx \<Rightarrow> cell \<Rightarrow> (P4_Ctx \<times> cell) res" where
  "at_sub ctx ip =
     (let (w, ds1) = P4_POP (ds ctx) in
      Done (ctx\<lparr>ds := P4_TOP_set ds1 (P4_TOP ds1 - w)\<rparr>, ip))"

definition at_mul :: "P4_Ctx \<Rightarrow> cell \<Rightarrow> (P4_Ctx \<times> cell) res" where
  "at_mul ctx ip =
     (let (w, ds1) = P4_POP (ds ctx) in
      Done (ctx\<lparr>ds := P4_TOP_set ds1 (P4_TOP ds1 * w)\<rparr>, ip))"

text \<open>\<^verbatim>\<open>goto *w.xt->code\<close>.\<close>

definition goto_code :: "P4_Host \<Rightarrow> P4_Ctx \<Rightarrow> cell \<Rightarrow> cell \<Rightarrow> (P4_Ctx \<times> cell) res" where
  "goto_code h ctx ip w =
     (case word_heap ctx w of
        None \<Rightarrow> Fault
      | Some word \<Rightarrow>
          (case code word of
             L_enter \<Rightarrow> at_enter ctx ip w
           | L_exit \<Rightarrow> at_exit ctx ip
           | L_call \<Rightarrow> at_call ctx ip
           | L_lit \<Rightarrow> at_lit ctx ip
           | L_noname \<Rightarrow> at_noname h ctx ip
           | L_colon \<Rightarrow> at_colon h ctx ip
           | L_semicolon \<Rightarrow> at_semicolon h ctx ip
           | L_marker \<Rightarrow> at_marker h ctx ip
           | L_rm_marker \<Rightarrow> at_rm_marker ctx ip w
           | L_create \<Rightarrow> at_create h ctx ip
           | L_does \<Rightarrow> at_does ctx ip
           | L_do_does \<Rightarrow> at_do_does ctx ip w
           | L_body \<Rightarrow> at_body ctx ip
           | L_data_field \<Rightarrow> at_data_field ctx ip w
           | L_allot \<Rightarrow> at_allot h ctx ip
           | L_unused \<Rightarrow> at_unused ctx ip
           | L_allocate \<Rightarrow> at_allocate h ctx ip
           | L_free \<Rightarrow> at_free ctx ip
           | L_drop \<Rightarrow> at_drop ctx ip
           | L_dup \<Rightarrow> at_dup ctx ip
           | L_to_rs \<Rightarrow> at_to_rs ctx ip
           | L_from_rs \<Rightarrow> at_from_rs ctx ip
           | L_add \<Rightarrow> at_add ctx ip
           | L_sub \<Rightarrow> at_sub ctx ip
           | L_mul \<Rightarrow> at_mul ctx ip))"

text \<open>\<^verbatim>\<open>_next\<close>, up to the \<^verbatim>\<open>NEXT\<close> of the primitive it jumps to.\<close>

definition at_next :: "P4_Host \<Rightarrow> P4_Ctx \<Rightarrow> cell \<Rightarrow> (P4_Ctx \<times> cell) res" where
  "at_next h ctx ip =
     (case p4StackCanPopPush ctx DS 0 0 of
        Fault \<Rightarrow> Fault
      | Thrown c ctx' \<Rightarrow> Thrown c ctx'
      | Done u \<Rightarrow> (let w = memory ctx ip in goto_code h ctx (ip + P4_CELL) w))"

text \<open>\<^verbatim>\<open>_execute\<close>, up to the \<^verbatim>\<open>NEXT\<close> of the primitive it jumps to.\<close>

definition at_execute :: "P4_Host \<Rightarrow> P4_Ctx \<Rightarrow> cell \<Rightarrow> (P4_Ctx \<times> cell) res" where
  "at_execute h ctx ip =
     (let (w, ds1) = P4_POP (ds ctx) in goto_code h (ctx\<lparr>ds := ds1\<rparr>) ip w)"

section \<open>Sample contexts\<close>

text \<open>
  A host and contexts on which the theorems below are run: a data space from \<open>0x8000\<close>
  to \<open>0x8400\<close>, stacks of 64 cells (6 for the float stack), and a dictionary whose only word
  is a built-in one at \<open>0x100\<close>.
\<close>

definition host0 :: P4_Host where
  "host0 = \<lparr>MEMSET = (\<lambda>m start n. m), strtod = (\<lambda>s. (0, 0)), char_signed = True,
            w_lit = 0x1000, w_exit = 0x1040, parse_name = ''X'', malloc_word = 0x2000,
            strndup_ok = True, malloc_block = 0x3000\<rparr>"

definition stack0 :: "cell \<Rightarrow> P4_Stack" where
  "stack0 n = \<lparr>stk_size = n, stk_top = - 1, stk_cells = (\<lambda>i. 0)\<rparr>"

definition word_dup :: P4_Word where
  "word_dup = \<lparr>prev = 0, name = ''DUP'', bits = 0, code = L_dup, ndata = 0, data = 0\<rparr>"

definition ctx0 :: P4_Ctx where
  "ctx0 = \<lparr>ds = stack0 64, rs = stack0 64, fs = stack0 6, state = P4_STATE_INTERPRET,
           words = 0x100, radix = 10, here = 0x8000, endp = 0x8400,
           word_heap = [0x100 \<mapsto> word_dup], memory = (\<lambda>a. 0), blocks = {}\<rparr>"

text \<open>The context in the middle of \<^verbatim>\<open>: FOO\<close>, two cells compiled.\<close>

definition word_foo :: P4_Word where
  "word_foo = \<lparr>prev = 0x100, name = ''FOO'', bits = P4_BIT_HIDDEN, code = L_enter, ndata = 16,
               data = 0x8000\<rparr>"

definition ctx_compiling :: P4_Ctx where
  "ctx_compiling =
     ctx0\<lparr>state := P4_STATE_COMPILE, words := 0x2000, here := 0x8010,
          word_heap := (word_heap ctx0)(0x2000 \<mapsto> word_foo)\<rparr>"

text \<open>The context with one cell of data space left.\<close>

definition ctx_last_cell :: P4_Ctx where
  "ctx_last_cell = ctx0\<lparr>here := 0x83F8\<rparr>"

text \<open>The context of \<^verbatim>\<open>: FOO\<close> after the literal 0 is compiled.\<close>

definition ctx_lit_compiled :: P4_Ctx where
  "ctx_lit_compiled =
     ctx_compiling\<lparr>memory := (\<lambda>a. 0)(0x8010 := 0x1000),
                   word_heap := (word_heap ctx_compiling)(0x2000 \<mapsto> word_foo\<lparr>ndata := 24\<rparr>),
                   here := 0x8018\<rparr>"

















text \<open>
  The dictionary as a list: \<open>dict_path heap p xs q\<close> says that the \<^verbatim>\<open>prev\<close> links lead
  from the word at \<open>p\<close> to the word at \<open>q\<close> through the live words \<open>xs\<close>, newest first,
  \<open>q\<close> not among them.
\<close>

fun dict_path :: "(cell \<rightharpoonup> P4_Word) \<Rightarrow> cell \<Rightarrow> cell list \<Rightarrow> cell \<Rightarrow> bool" where
  "dict_path heap p [] q = (p = q)"
| "dict_path heap p (x # xs) q =
     (p = x \<and> p \<noteq> q \<and>
      (case heap p of None \<Rightarrow> False | Some wd \<Rightarrow> dict_path heap (prev wd) xs q))"

text \<open>
  Contexts around \<^verbatim>\<open>MARKER\<close>: right after \<^verbatim>\<open>MARKER X\<close> typed at \<open>ctx0\<close>; after that a
  word \<^verbatim>\<open>Y\<close> created and a block allocated; \<open>ctx_odd\<close>, which is \<open>ctx0\<close> after
  \<^verbatim>\<open>3 ALLOT\<close>, and the context right after \<^verbatim>\<open>MARKER X\<close> typed there.
\<close>

definition word_m :: P4_Word where
  "word_m = \<lparr>prev = 0x100, name = ''X'', bits = 0, code = L_rm_marker, ndata = 0,
             data = 0x8000\<rparr>"

definition ctx_marker :: P4_Ctx where
  "ctx_marker = ctx0\<lparr>words := 0x2000, word_heap := (word_heap ctx0)(0x2000 \<mapsto> word_m)\<rparr>"

definition ctx_after_marker :: P4_Ctx where
  "ctx_after_marker =
     ctx_marker\<lparr>words := 0x2100, here := 0x8008, blocks := {0x3000},
                word_heap := (word_heap ctx_marker)(0x2100 \<mapsto>
                  \<lparr>prev = 0x2000, name = ''Y'', bits = P4_BIT_CREATED, code = L_data_field,
                    ndata = 8, data = 0x8000\<rparr>)\<rparr>"

definition ctx_odd :: P4_Ctx where
  "ctx_odd =
     ctx0\<lparr>ds := P4_DROP (P4_PUSH (ds ctx0) 3) 1, here := 0x8003,
          word_heap := [0x100 \<mapsto> word_dup\<lparr>ndata := 3\<rparr>]\<rparr>"

definition ctx_odd_marker :: P4_Ctx where
  "ctx_odd_marker =
     ctx_odd\<lparr>words := 0x2000, here := 0x8008,
             word_heap := [0x100 \<mapsto> word_dup\<lparr>ndata := 8\<rparr>,
                           0x2000 \<mapsto> word_m\<lparr>data := 0x8008\<rparr>]\<rparr>"

text \<open>
  Contexts for the depth checks: the data stack full, the return stack full, and one cell
  on the data stack.
\<close>

definition ctx_ds_full :: P4_Ctx where
  "ctx_ds_full = ctx0\<lparr>ds := \<lparr>stk_size = 64, stk_top = 63, stk_cells = (\<lambda>i. 7)\<rparr>\<rparr>"

definition ctx_rs_full :: P4_Ctx where
  "ctx_rs_full = ctx0\<lparr>rs := \<lparr>stk_size = 64, stk_top = 63, stk_cells = (\<lambda>i. 7)\<rparr>\<rparr>"

definition ctx_ds_one :: P4_Ctx where
  "ctx_ds_one = ctx0\<lparr>ds := P4_PUSH (ds ctx0) 5\<rparr>"

text \<open>
  A context in the middle of a definition with cells on the three stacks: two on the data
  stack, one on the return stack and one on the float stack.
\<close>

definition ctx_busy :: P4_Ctx where
  "ctx_busy =
     ctx_compiling\<lparr>ds := \<lparr>stk_size = 64, stk_top = 1, stk_cells = (\<lambda>i. 7)\<rparr>,
                   rs := \<lparr>stk_size = 64, stk_top = 0, stk_cells = (\<lambda>i. 7)\<rparr>,
                   fs := \<lparr>stk_size = 6, stk_top = 0, stk_cells = (\<lambda>i. 7)\<rparr>\<rparr>"

section \<open>Throw codes\<close>

lemmas throw_defs =
  P4_THROW_OK_def P4_THROW_ABORT_def P4_THROW_ABORT_MSG_def P4_THROW_DS_OVER_def
  P4_THROW_DS_UNDER_def P4_THROW_RS_OVER_def P4_THROW_RS_UNDER_def P4_THROW_LOOP_DEPTH_def
  P4_THROW_SIGSEGV_def P4_THROW_UNDEFINED_def P4_THROW_BAD_CONTROL_def P4_THROW_COMPILING_def
  P4_THROW_NOT_CREATED_def P4_THROW_FS_OVER_def P4_THROW_FS_UNDER_def P4_THROW_SIGFPE_def
  P4_THROW_QUIT_def P4_THROW_ALLOCATE_def P4_THROW_RESIZE_def

lemmas sample_defs =
  host0_def stack0_def word_dup_def ctx0_def word_foo_def ctx_compiling_def

lemmas align_defs = P4_ALIGN_BY_def P4_CELL_ALIGN_def P4_ALIGN_SIZE_def P4_CELL_def

section \<open>The landing pad of the REPL\<close>

text \<open>
  C7.  When the landing pad of \<^verbatim>\<open>p4Repl\<close> catches a throw, the state is interpret
  afterwards whatever the code is, and for each of the codes abort, abort-msg, data-stack
  overflow and data-stack underflow the data stack and the float stack are reset: the top
  pointer of each is put back under its base, so that each has the depth 0, with its
  capacity as it was.
\<close>

theorem landing_pad_resets:
  "state (p4Repl_on_throw ctx rc) = P4_STATE_INTERPRET
   \<and> P4_STATE_INTERPRET \<noteq> P4_STATE_COMPILE
   \<and> (rc = P4_THROW_ABORT \<or> rc = P4_THROW_ABORT_MSG \<or> rc = P4_THROW_DS_OVER
        \<or> rc = P4_THROW_DS_UNDER \<longrightarrow>
      ds (p4Repl_on_throw ctx rc) = P4_RESET (ds ctx)
      \<and> fs (p4Repl_on_throw ctx rc) = P4_RESET (fs ctx)
      \<and> stk_top (ds (p4Repl_on_throw ctx rc)) = - 1
      \<and> stk_top (fs (p4Repl_on_throw ctx rc)) = - 1
      \<and> P4_LENGTH (ds (p4Repl_on_throw ctx rc)) = 0
      \<and> P4_LENGTH (fs (p4Repl_on_throw ctx rc)) = 0
      \<and> stk_size (ds (p4Repl_on_throw ctx rc)) = stk_size (ds ctx)
      \<and> stk_size (fs (p4Repl_on_throw ctx rc)) = stk_size (fs ctx))"
  by (auto simp add: p4Repl_on_throw_def Let_def P4_RESET_def P4_LENGTH_def
      P4_STATE_INTERPRET_def P4_STATE_COMPILE_def)

text \<open>
  The theorem at a throw of data-stack underflow and at a throw of abort in the middle of a
  definition, with two cells on the data stack and one on the float stack: both stacks
  are empty afterwards and the state is interpret.
\<close>

theorem landing_pad_resets_witness:
  "P4_LENGTH (ds ctx_busy) = 2 \<and> P4_LENGTH (fs ctx_busy) = 1
   \<and> state ctx_busy = P4_STATE_COMPILE
   \<and> state (p4Repl_on_throw ctx_busy P4_THROW_DS_UNDER) = P4_STATE_INTERPRET
   \<and> P4_LENGTH (ds (p4Repl_on_throw ctx_busy P4_THROW_DS_UNDER)) = 0
   \<and> P4_LENGTH (fs (p4Repl_on_throw ctx_busy P4_THROW_DS_UNDER)) = 0
   \<and> ds (p4Repl_on_throw ctx_busy P4_THROW_ABORT)
       = \<lparr>stk_size = 64, stk_top = - 1, stk_cells = (\<lambda>i. 7)\<rparr>
   \<and> fs (p4Repl_on_throw ctx_busy P4_THROW_ABORT)
       = \<lparr>stk_size = 6, stk_top = - 1, stk_cells = (\<lambda>i. 7)\<rparr>"
  using landing_pad_resets [of ctx_busy P4_THROW_DS_UNDER]
    landing_pad_resets [of ctx_busy P4_THROW_ABORT]
  by (simp add: ctx_busy_def sample_defs P4_LENGTH_def P4_RESET_def)

section \<open>The data-space allocator\<close>

text \<open>What \<^verbatim>\<open>p4Allot\<close> does, case by case.\<close>

lemma p4Allot_cases:
  assumes "word_heap ctx (words ctx) = Some word"
  shows "(uint (endp ctx) \<le> uint (here ctx) + sint n \<longrightarrow>
            p4Allot h ctx n = Thrown P4_THROW_ALLOCATE ctx)
     \<and> (uint (here ctx) + sint n < uint (endp ctx)
          \<and> uint (here ctx) + sint n < uint (data word) \<longrightarrow>
            p4Allot h ctx n = Thrown P4_THROW_RESIZE ctx)
     \<and> (uint (here ctx) + sint n < uint (endp ctx)
          \<and> uint (data word) \<le> uint (here ctx) + sint n \<longrightarrow>
            (\<exists>ctx'. p4Allot h ctx n = Done (here ctx, ctx') \<and> here ctx' = here ctx + n
               \<and> word_heap ctx' (words ctx') = Some (word\<lparr>ndata := ndata word + n\<rparr>)))"
  using assms by (simp add: p4Allot_def)

text \<open>
  C3.  \<^verbatim>\<open>p4Allot\<close> on the request that leaves \<open>here + n\<close> equal to \<open>end\<close>: with one cell
  of data space left, the allotment of that cell throws \<^verbatim>\<open>P4_THROW_ALLOCATE\<close> and the
  context is as before.  So does \<^verbatim>\<open>UNUSED ALLOT\<close>, the allotment of exactly the count of
  bytes that \<^verbatim>\<open>UNUSED\<close> reports as free.
\<close>

theorem allot_up_to_end_throws:
  "uint (here ctx_last_cell) + sint (8 :: cell) = uint (endp ctx_last_cell)
   \<and> p4Allot host0 ctx_last_cell 8 = Thrown P4_THROW_ALLOCATE ctx_last_cell
   \<and> at_unused ctx0 0 = Done (ctx0\<lparr>ds := P4_PUSH (ds ctx0) 0x400\<rparr>, 0)
   \<and> at_allot host0 (ctx0\<lparr>ds := P4_PUSH (ds ctx0) 0x400\<rparr>) 0 =
       Thrown P4_THROW_ALLOCATE (ctx0\<lparr>ds := P4_DROP (P4_PUSH (ds ctx0) 0x400) 1\<rparr>)"
  by (simp add: p4Allot_def at_unused_def at_allot_def P4_POP_def P4_PUSH_def P4_DROP_def
      ctx_last_cell_def sample_defs)

section \<open>Uncaught exceptions\<close>

text \<open>
  C5, as the code has it.  \<^verbatim>\<open>p4Exception\<close> returns at once for the codes abort, abort-msg
  and quit (and for 0) and leaves the context as it is.  For every other throw code that
  reaches it while the HIDDEN bit is set on the head word, the definition in progress is
  discarded: the head word is unlinked, \<^verbatim>\<open>here\<close> goes back to the data base of that word,
  the word is freed and the state is interpret.
\<close>

theorem exception_discards_hidden_head:
  assumes "word_heap ctx (words ctx) = Some word" and "P4_WORD_IS_HIDDEN word"
  shows "p4Exception ctx cd =
           (if cd = P4_THROW_ABORT_MSG \<or> cd = P4_THROW_ABORT \<or> cd = P4_THROW_QUIT
               \<or> cd = P4_THROW_OK
            then Done ctx
            else Done (ctx\<lparr>state := P4_STATE_INTERPRET, words := prev word, here := data word,
                           word_heap := p4WordFree (word_heap ctx) (words ctx)\<rparr>))"
  using assms by (simp add: p4Exception_def)

text \<open>
  The theorem at the throw of undefined in the middle of \<^verbatim>\<open>: FOO\<close>: the dictionary and
  \<^verbatim>\<open>here\<close> are those of before the definition.
\<close>

theorem exception_discards_hidden_head_witness:
  "word_heap ctx_compiling (words ctx_compiling) = Some word_foo
   \<and> P4_WORD_IS_HIDDEN word_foo
   \<and> p4Exception ctx_compiling P4_THROW_UNDEFINED = Done ctx0"
  using exception_discards_hidden_head [of ctx_compiling word_foo P4_THROW_UNDEFINED]
  by (simp add: throw_defs sample_defs P4_WORD_IS_HIDDEN_def P4_BIT_HIDDEN_def p4WordFree_def
      P4_STATE_INTERPRET_def P4_STATE_COMPILE_def)

text \<open>
  C5 as it is stated fails for abort: thrown in the middle of \<^verbatim>\<open>: FOO\<close>, it leaves the
  hidden word at the head of the dictionary, \<^verbatim>\<open>here\<close> where it was, and the state
  compile.
\<close>

theorem exception_abort_keeps_hidden_head:
  "word_heap ctx_compiling (words ctx_compiling) = Some word_foo
   \<and> P4_WORD_IS_HIDDEN word_foo
   \<and> p4Exception ctx_compiling P4_THROW_ABORT = Done ctx_compiling
   \<and> words ctx_compiling = 0x2000
   \<and> here ctx_compiling = 0x8010"
  by (simp add: p4Exception_def throw_defs sample_defs P4_WORD_IS_HIDDEN_def P4_BIT_HIDDEN_def)

section \<open>The numeric literal parser\<close>

lemma of_char_eq_numeral:
  "(of_char c :: int) = 69 \<longleftrightarrow> c = CHR ''E''"
  "(of_char c :: int) = 101 \<longleftrightarrow> c = CHR ''e''"
  "(of_char c :: int) = 88 \<longleftrightarrow> c = CHR ''X''"
  "(of_char c :: int) = 120 \<longleftrightarrow> c = CHR ''x''"
proof -
  have "(of_char c :: int) = of_char (CHR ''E'') \<longleftrightarrow> c = CHR ''E''"
    "(of_char c :: int) = of_char (CHR ''e'') \<longleftrightarrow> c = CHR ''e''"
    "(of_char c :: int) = of_char (CHR ''X'') \<longleftrightarrow> c = CHR ''X''"
    "(of_char c :: int) = of_char (CHR ''x'') \<longleftrightarrow> c = CHR ''x''"
    by (rule of_char_eq_iff)+
  then show "(of_char c :: int) = 69 \<longleftrightarrow> c = CHR ''E''"
    "(of_char c :: int) = 101 \<longleftrightarrow> c = CHR ''e''"
    "(of_char c :: int) = 88 \<longleftrightarrow> c = CHR ''X''"
    "(of_char c :: int) = 120 \<longleftrightarrow> c = CHR ''x''"
    by simp_all
qed

lemma toupper_E: "toupper (of_char c) = 69 \<longleftrightarrow> c = CHR ''E'' \<or> c = CHR ''e''"
  using of_char_eq_numeral(1,2) [of c] by (auto simp: toupper_def)

lemma p4Base36_table:
  "p4Base36 d =
     (if 48 \<le> d \<and> d \<le> 57 then d - 48
      else if 65 \<le> d \<and> d \<le> 90 then d - 65 + 10
      else if 97 \<le> d \<and> d \<le> 122 then d - 97 + 10
      else 127)"
  by (simp add: p4Base36_def toupper_def)

text \<open>The loop of the code and the digits of the specification, away from floats.\<close>

lemma digits_refine:
  "\<not> stops_at_float base cs \<Longrightarrow>
   p4StrNum_digits cs base num off =
     Loop_done (fst (spec_digits base cs num)) (off + int (snd (spec_digits base cs num)))"
proof (induction cs arbitrary: num off)
  case Nil
  then show ?case by simp
next
  case (Cons c cs)
  let ?d = "word_of_int (p4Base36 (of_char c)) :: cell"
  show ?case
  proof (cases "base \<le> ?d")
    case True
    then have nd: "\<not> ?d < base" by simp
    with Cons.prems have "\<not> (c = CHR ''.'' \<or> c = CHR ''E'' \<or> c = CHR ''e'')"
      by (simp only: stops_at_float.simps if_False simp_thms)
    then have "\<not> (c = CHR ''.'' \<or> toupper (of_char c) = 69)"
      using toupper_E [of c] by blast
    with True nd show ?thesis
      by (simp only: p4StrNum_digits.simps spec_digits.simps Let_def if_True if_False
          fst_conv snd_conv) simp
  next
    case False
    then have d: "?d < base" by simp
    with Cons.prems have "\<not> stops_at_float base cs"
      by (simp only: stops_at_float.simps if_True simp_thms)
    from Cons.IH [OF this, of "num * base + ?d" "off + 1"] False d show ?thesis
      by (simp only: p4StrNum_digits.simps spec_digits.simps Let_def if_True if_False
          split_beta fst_conv snd_conv) simp
  qed
qed

lemma prefix_refine:
  assumes "str \<noteq> ''0x''" "str \<noteq> ''0X''" "str \<noteq> []"
  shows "p4StrNum_prefix str base = spec_prefix str base"
proof (cases str)
  case Nil
  with assms show ?thesis by simp
next
  case (Cons a rest)
  show ?thesis
  proof (cases rest)
    case Nil
    with Cons show ?thesis
      by (simp add: p4StrNum_prefix_def spec_prefix_def)
  next
    case (Cons b rest')
    with \<open>str = a # rest\<close> assms show ?thesis
      by (cases rest')
        (auto simp: p4StrNum_prefix_def spec_prefix_def tolower_def isdigit_def
          of_char_eq_numeral)
  qed
qed

lemma negate_refine:
  "k \<le> length str \<Longrightarrow>
   fst (p4StrNum_negate str k) = fst (spec_sign (drop k str))
   \<and> drop (snd (p4StrNum_negate str k)) str = snd (spec_sign (drop k str))
   \<and> snd (p4StrNum_negate str k) = k + (if fst (spec_sign (drop k str)) then 1 else 0)"
proof (cases "k < length str")
  case True
  then have "take 1 (drop k str) = [str ! k]"
    by (simp add: take_Suc_conv_app_nth drop_Suc hd_drop_conv_nth take_Suc)
  with True show ?thesis
    by (simp add: p4StrNum_negate_def spec_sign_def)
next
  case False
  then show ?thesis by (simp add: p4StrNum_negate_def spec_sign_def)
qed

lemma spec_prefix_le: "str \<noteq> [] \<Longrightarrow> snd (spec_prefix str b) \<le> length str"
  by (cases str; cases "tl str") (auto simp: spec_prefix_def)

lemma spec_digits_0x:
  "spec_digits radix0 ''0x'' 0 =
     (if radix0 = 0 then (0, 0) else if radix0 \<le> 33 then (0, 1) else (33, 2))
   \<and> spec_digits radix0 ''0X'' 0 =
     (if radix0 = 0 then (0, 0) else if radix0 \<le> 33 then (0, 1) else (33, 2))"
  by (auto simp add: p4Base36_def toupper_def word_gt_0)

lemma strnum_refines_spec_main:
  assumes "take 1 str \<noteq> [CHR 0x27]" and "str \<noteq> ''0x''" and "str \<noteq> ''0X''"
    and "\<not> spec_float_stop str radix0"
  shows "p4StrNum st str radix0 =
           Returned (fst (spec_StrNum str radix0)) (snd (spec_StrNum str radix0)) False"
proof (cases "str = []")
  case True
  then show ?thesis
    by (simp add: p4StrNum_def spec_StrNum_def spec_prefix_def spec_sign_def)
next
  case False
  with assms(1) have q: "str ! 0 \<noteq> CHR 0x27"
    by (cases str) simp_all
  obtain base k where pk: "spec_prefix str radix0 = (base, k)"
    by (cases "spec_prefix str radix0")
  from False assms(2,3) have p: "p4StrNum_prefix str radix0 = (base, k)"
    by (simp add: prefix_refine pk)
  from spec_prefix_le [OF False, of radix0] pk have kl: "k \<le> length str"
    by simp
  obtain negate rest where sg: "spec_sign (drop k str) = (negate, rest)"
    by (cases "spec_sign (drop k str)")
  obtain k' where n: "p4StrNum_negate str k = (negate, k')"
    and dr: "drop k' str = rest" and k': "k' = k + (if negate then 1 else 0)"
    using negate_refine [OF kl] sg by (cases "p4StrNum_negate str k") simp
  from assms(4) pk sg have nf: "\<not> stops_at_float base rest"
    by (simp add: spec_float_stop_def)
  obtain num m where dg: "spec_digits base rest 0 = (num, m)"
    by (cases "spec_digits base rest 0")
  from digits_refine [OF nf, of 0 "int k'"] dg
  have lp: "p4StrNum_digits rest base 0 (int k') = Loop_done num (int k' + int m)"
    by simp
  from False q p n dr lp have "p4StrNum st str radix0 =
      Returned (int k' + int m) (if negate then - num else num) False"
    by (simp add: p4StrNum_def)
  moreover from pk sg dg k' have "spec_StrNum str radix0 =
      (int k' + int m, if negate then - num else num)"
    by (simp add: spec_StrNum_def)
  ultimately show ?thesis by simp
qed

text \<open>
  C8, as the code has it.  For every slice that does not begin with a quote, that is not
  just \<open>0x\<close> or \<open>0X\<close>, and whose digits do not stop at \<open>.\<close>, \<open>E\<close> or \<open>e\<close> (the
  floating-point path), \<^verbatim>\<open>p4StrNum\<close> is the parser of the specification: the radix
  comes from the prefix whatever the radix argument is (\<open>$\<close> 16, \<open>#\<close> 10, \<open>%\<close> 2,
  \<open>0x\<close> and \<open>0X\<close> 16, \<open>0\<close> before a digit or \<open>-\<close> 8), one optional \<open>-\<close> behind the
  prefix negates, the digits are mapped by \<^verbatim>\<open>p4Base36\<close>, and the result is the count of
  bytes consumed, with \<^verbatim>\<open>is_float\<close> false.  The two-byte slices \<open>0x\<close> and \<open>0X\<close> are
  no prefix: their two bytes are parsed as digits in the current radix, so that nothing is
  consumed in radix 0, one byte (the \<open>0\<close>) in a radix up to 33, and both bytes, with the
  value 33, in a radix above 33.  \<^verbatim>\<open>p4Base36\<close> maps \<open>0\<close> to \<open>9\<close>, \<open>A\<close> to \<open>Z\<close> and
  \<open>a\<close> to \<open>z\<close> to 0 to 35 and everything else to 127.
\<close>

theorem strnum_refines_spec:
  "(take 1 str \<noteq> [CHR 0x27] \<and> str \<noteq> ''0x'' \<and> str \<noteq> ''0X''
      \<and> \<not> spec_float_stop str radix0 \<longrightarrow>
      p4StrNum st str radix0 =
        Returned (fst (spec_StrNum str radix0)) (snd (spec_StrNum str radix0)) False)
   \<and> (str = ''0x'' \<or> str = ''0X'' \<longrightarrow>
      p4StrNum st str radix0 =
        Returned (int (snd (spec_digits radix0 str 0))) (fst (spec_digits radix0 str 0)) False
      \<and> p4StrNum st str radix0 =
        (if radix0 = 0 then Returned 0 0 False
         else if radix0 \<le> 33 then Returned 1 0 False
         else Returned 2 33 False))
   \<and> p4Base36 d =
       (if 48 \<le> d \<and> d \<le> 57 then d - 48
        else if 65 \<le> d \<and> d \<le> 90 then d - 65 + 10
        else if 97 \<le> d \<and> d \<le> 122 then d - 97 + 10
        else 127)"
proof (intro conjI impI)
  assume "take 1 str \<noteq> [CHR 0x27] \<and> str \<noteq> ''0x'' \<and> str \<noteq> ''0X''
      \<and> \<not> spec_float_stop str radix0"
  then show "p4StrNum st str radix0 =
        Returned (fst (spec_StrNum str radix0)) (snd (spec_StrNum str radix0)) False"
    by (intro strnum_refines_spec_main) simp_all
next
  assume a: "str = ''0x'' \<or> str = ''0X''"
  have "p4StrNum st ''0x'' radix0 =
        (if radix0 = 0 then Returned 0 0 False
         else if radix0 \<le> 33 then Returned 1 0 False
         else Returned 2 33 False)"
    by (simp add: p4StrNum_def p4StrNum_prefix_def p4StrNum_negate_def p4Base36_def
        toupper_def tolower_def isdigit_def)
  moreover have "p4StrNum st ''0X'' radix0 =
        (if radix0 = 0 then Returned 0 0 False
         else if radix0 \<le> 33 then Returned 1 0 False
         else Returned 2 33 False)"
    by (simp add: p4StrNum_def p4StrNum_prefix_def p4StrNum_negate_def p4Base36_def
        toupper_def tolower_def isdigit_def)
  ultimately show r: "p4StrNum st str radix0 =
        (if radix0 = 0 then Returned 0 0 False
         else if radix0 \<le> 33 then Returned 1 0 False
         else Returned 2 33 False)"
    using a by blast
  from a spec_digits_0x [of radix0]
  have "spec_digits radix0 str 0 =
     (if radix0 = 0 then (0, 0) else if radix0 \<le> 33 then (0, 1) else (33, 2))"
    by blast
  with r show "p4StrNum st str radix0 =
        Returned (int (snd (spec_digits radix0 str 0))) (fst (spec_digits radix0 str 0)) False"
    by simp
next
  show "p4Base36 d =
       (if 48 \<le> d \<and> d \<le> 57 then d - 48
        else if 65 \<le> d \<and> d \<le> 90 then d - 65 + 10
        else if 97 \<le> d \<and> d \<le> 122 then d - 97 + 10
        else 127)"
    by (rule p4Base36_table)
qed

lemma spec_hex_sample:
  "spec_StrNum ''$-1f'' 10 = (4, - 31) \<and> \<not> spec_float_stop ''$-1f'' 10"
  by (simp add: spec_StrNum_def spec_prefix_def spec_sign_def spec_float_stop_def
      p4Base36_def toupper_def)

text \<open>
  The theorem at \<open>$-1f\<close> in radix 10: four bytes consumed, the value is -31; at \<open>0x\<close> in
  radix 10: one byte consumed; and at \<open>0X\<close> in radix 36: both bytes consumed, the value
  is 33.
\<close>

theorem strnum_refines_spec_witness:
  "take 1 ''$-1f'' \<noteq> [CHR 0x27] \<and> ''$-1f'' \<noteq> ''0x'' \<and> ''$-1f'' \<noteq> ''0X''
   \<and> \<not> spec_float_stop ''$-1f'' 10
   \<and> p4StrNum (\<lambda>s. (0, 0)) ''$-1f'' 10 = Returned 4 (- 31) False
   \<and> p4StrNum (\<lambda>s. (0, 0)) ''0x'' 10 = Returned 1 0 False
   \<and> p4StrNum (\<lambda>s. (0, 0)) ''0X'' 36 = Returned 2 33 False
   \<and> p4Base36 102 = 15"
proof -
  have h: "take 1 ''$-1f'' \<noteq> [CHR 0x27] \<and> ''$-1f'' \<noteq> ''0x'' \<and> ''$-1f'' \<noteq> ''0X''
      \<and> \<not> spec_float_stop ''$-1f'' 10"
    using spec_hex_sample by simp
  with strnum_refines_spec [of "''$-1f''" 10 "\<lambda>s. (0, 0)" 102]
  have "p4StrNum (\<lambda>s. (0, 0)) ''$-1f'' 10 =
        Returned (fst (spec_StrNum ''$-1f'' 10)) (snd (spec_StrNum ''$-1f'' 10)) False"
    and "p4Base36 102 =
       (if 48 \<le> (102 :: int) \<and> (102 :: int) \<le> 57 then 102 - 48
        else if 65 \<le> (102 :: int) \<and> (102 :: int) \<le> 90 then 102 - 65 + 10
        else if 97 \<le> (102 :: int) \<and> (102 :: int) \<le> 122 then 102 - 97 + 10
        else 127)"
    by blast+
  then have a: "p4StrNum (\<lambda>s. (0, 0)) ''$-1f'' 10 = Returned 4 (- 31) False"
    and b: "p4Base36 102 = 15"
    using spec_hex_sample by simp_all
  from strnum_refines_spec [of "''0x''" 10 "\<lambda>s. (0, 0)" 102]
  have "p4StrNum (\<lambda>s. (0, 0)) ''0x'' 10 =
        (if (10 :: cell) = 0 then Returned 0 0 False
         else if (10 :: cell) \<le> 33 then Returned 1 0 False
         else Returned 2 33 False)"
    by blast
  then have c: "p4StrNum (\<lambda>s. (0, 0)) ''0x'' 10 = Returned 1 0 False" by simp
  from strnum_refines_spec [of "''0X''" 36 "\<lambda>s. (0, 0)" 102]
  have "p4StrNum (\<lambda>s. (0, 0)) ''0X'' 36 =
        (if (36 :: cell) = 0 then Returned 0 0 False
         else if (36 :: cell) \<le> 33 then Returned 1 0 False
         else Returned 2 33 False)"
    by blast
  then have d: "p4StrNum (\<lambda>s. (0, 0)) ''0X'' 36 = Returned 2 33 False" by simp
  from h a b c d show ?thesis by blast
qed

text \<open>
  C8 as it is stated fails at the slice \<open>0x\<close>: the specification's parser takes \<open>0x\<close> as
  the prefix of radix 16 and consumes both bytes, as it does for \<open>$\<close>; the code asks for a
  third byte before it takes the prefix, parses \<open>0x\<close> in the current radix and, in radix
  10, stops at the \<open>x\<close> with one byte consumed.
\<close>

theorem strnum_0x_differs:
  "spec_StrNum ''0x'' 10 = (2, 0)
   \<and> p4StrNum (\<lambda>s. (0, 0)) ''0x'' 10 = Returned 1 0 False"
  by (simp add: spec_StrNum_def spec_prefix_def spec_sign_def p4StrNum_def p4StrNum_prefix_def
      p4StrNum_negate_def p4Base36_def toupper_def tolower_def isdigit_def)

section \<open>Numbers in the outer interpreter\<close>

lemma uint_word_of_int_cell:
  "0 \<le> k \<Longrightarrow> k < 2 ^ 64 \<Longrightarrow> uint (word_of_int k :: cell) = k"
  by (simp add: uint_word_of_int take_bit_int_eq_self)

lemma p4Allot_Thrown:
  "p4Allot h ctx n = Thrown c x \<Longrightarrow>
   (c = P4_THROW_ALLOCATE \<or> c = P4_THROW_RESIZE) \<and> x = ctx"
  by (auto simp: p4Allot_def split: if_splits option.splits)

lemma p4Allot_Done:
  "p4Allot h ctx n = Done (a, ctx') \<Longrightarrow>
   \<exists>wd. word_heap ctx (words ctx) = Some wd \<and> a = here ctx
     \<and> ctx' = ctx\<lparr>memory := MEMSET h (memory ctx) (here ctx) n,
                  word_heap := (word_heap ctx)(words ctx \<mapsto> wd\<lparr>ndata := ndata wd + n\<rparr>),
                  here := here ctx + n\<rparr>"
  by (auto simp: p4Allot_def split: if_splits option.splits)

lemma p4WordAppend_Thrown:
  assumes "p4WordAppend h ctx v = Thrown c x"
  shows "c = P4_THROW_ALLOCATE \<or> c = P4_THROW_RESIZE"
proof -
  from assms obtain wd where wd: "word_heap ctx (words ctx) = Some wd"
    by (auto simp: p4WordAppend_def split: option.splits)
  show ?thesis
  proof (cases "p4Allot h ctx (P4_ALIGN_BY (ndata wd))")
    case (Done r)
    obtain a ctx1 where r: "r = (a, ctx1)" by (cases r)
    with assms wd Done have "p4Allot h ctx1 P4_CELL = Thrown c x"
      by (auto simp: p4WordAppend_def split: res.splits)
    then show ?thesis using p4Allot_Thrown by blast
  next
    case (Thrown c' x')
    with assms wd have "c' = c" by (simp add: p4WordAppend_def)
    with Thrown show ?thesis using p4Allot_Thrown by blast
  next
    case Fault
    with assms wd show ?thesis by (simp add: p4WordAppend_def)
  qed
qed

text \<open>The depth check for one push passes on a stack that is not full.\<close>

lemma can_push_room:
  assumes "0 \<le> P4_LENGTH (stack_of ctx sid)"
    and "P4_LENGTH (stack_of ctx sid) < uint (stk_size (stack_of ctx sid))"
  shows "p4StackCanPopPush ctx sid 0 1 = Done ()"
proof -
  let ?len = "stk_top (stack_of ctx sid) + 1"
  let ?size = "stk_size (stack_of ctx sid)"
  from assms have l: "0 \<le> ?len" "?len < uint ?size" by (simp_all add: P4_LENGTH_def)
  have "uint ?size < 2 ^ 64" using uint_bounded [of ?size] by simp
  with l have "0 \<le> ?len + 1" "?len + 1 < 2 ^ 64" by simp_all
  then have "uint (word_of_int (?len + 1) :: cell) = ?len + 1"
    by (rule uint_word_of_int_cell)
  with l have "\<not> ?size < word_of_int (?len + 1)"
    unfolding word_less_def by linarith
  with l show ?thesis
    by (simp add: p4StackCanPopPush_def Let_def)
qed

text \<open>Alignment: what \<^verbatim>\<open>P4_ALIGN_BY\<close> gives at and up to a cell boundary.\<close>

lemma aligned_stays: "p AND 7 = 0 \<Longrightarrow> P4_ALIGN_BY p = (0 :: cell)"
proof -
  assume a: "p AND 7 = 0"
  have "p + 7 = p OR 7"
    by (rule disjunctive_add_eq_or) (rule a)
  then have "(p + 7) AND - 8 = (p AND - 8) OR (7 AND - 8)"
    by (simp add: bit.conj_disj_distrib2)
  also have "(7 :: cell) AND - 8 = 0" by simp
  also have "p AND - 8 = p"
  proof -
    have "(7 :: cell) OR - 8 = - 1" by simp
    then have "p = p AND (7 OR - 8)" by simp
    also have "\<dots> = (p AND 7) OR (p AND - 8)" by (simp only: bit.conj_disj_distrib)
    finally show ?thesis using a by simp
  qed
  finally show ?thesis by (simp add: align_defs)
qed

lemma cell_align_aligned: "P4_CELL_ALIGN x AND 7 = 0"
proof -
  have "(x + 7 AND - 8) AND 7 = (x + 7) AND (- 8 AND 7)" by (simp only: and.assoc)
  also have "(- 8 :: cell) AND 7 = 0" by simp
  finally show ?thesis by (simp add: align_defs)
qed

lemma aligned_plus_cell:
  assumes "(a :: cell) AND 7 = 0" shows "(a + 8) AND 7 = 0"
proof -
  have m: "(7 :: cell) = mask 3" by (simp add: mask_eq_exp_minus_1)
  from assms have a: "take_bit 3 a = 0" by (simp add: take_bit_eq_mask m)
  then have "take_bit 3 (uint a) = 0"
    by (metis unsigned_take_bit_eq unsigned_0)
  have "uint (take_bit 3 (a + 8)) = take_bit 3 (take_bit 64 (uint a + 8))"
    by (simp add: unsigned_take_bit_eq uint_word_arith_bintrs)
  also have "\<dots> = take_bit 3 (uint a + 8)" by (simp add: take_bit_take_bit)
  also have "\<dots> = take_bit 3 (take_bit 3 (uint a) + take_bit 3 8)"
    by (rule take_bit_add [symmetric])
  also have "\<dots> = 0" using \<open>take_bit 3 (uint a) = 0\<close> by (simp add: take_bit_eq_mod)
  finally have "take_bit 3 (a + 8) = 0" by (simp add: unsigned_eq_0_iff)
  then show ?thesis by (simp add: take_bit_eq_mask m)
qed

text \<open>After an append the data of the head word ends on a cell boundary.\<close>

lemma appended_aligned: "P4_ALIGN_BY (p + P4_ALIGN_BY p + P4_CELL) = 0"
proof -
  have "p + P4_ALIGN_BY p = P4_CELL_ALIGN p" by (simp add: P4_ALIGN_BY_def)
  then have "(p + P4_ALIGN_BY p + 8) AND 7 = 0"
    using aligned_plus_cell [OF cell_align_aligned [of p]] by simp
  then show ?thesis by (simp add: aligned_stays P4_CELL_def)
qed

lemma p4Allot_Done_bound:
  "p4Allot h ctx n = Done r \<Longrightarrow> uint (here ctx) + sint n < uint (endp ctx)"
  by (auto simp: p4Allot_def split: if_splits option.splits)

text \<open>What \<^verbatim>\<open>p4WordAppend\<close> leaves when it returns.\<close>

lemma p4WordAppend_cell:
  assumes "p4WordAppend h ctx x = Done ctx'"
  shows "\<exists>wd. word_heap ctx (words ctx) = Some wd
     \<and> ctx' = ctx\<lparr>memory :=
                    (MEMSET h (MEMSET h (memory ctx) (here ctx) (P4_ALIGN_BY (ndata wd)))
                       (here ctx + P4_ALIGN_BY (ndata wd)) P4_CELL)
                    (here ctx + P4_ALIGN_BY (ndata wd) := x),
                  word_heap := (word_heap ctx)(words ctx \<mapsto>
                     wd\<lparr>ndata := ndata wd + P4_ALIGN_BY (ndata wd) + P4_CELL\<rparr>),
                  here := here ctx + P4_ALIGN_BY (ndata wd) + P4_CELL\<rparr>
     \<and> uint (here ctx + P4_ALIGN_BY (ndata wd)) + 8 < uint (endp ctx)"
proof -
  from assms obtain wd where wd: "word_heap ctx (words ctx) = Some wd"
    by (auto simp: p4WordAppend_def split: option.splits)
  let ?pad = "P4_ALIGN_BY (ndata wd)"
  from assms wd obtain a1 ctx1 where a1: "p4Allot h ctx ?pad = Done (a1, ctx1)"
    by (auto simp: p4WordAppend_def split: res.splits)
  from assms wd a1 obtain a2 ctx2 where a2: "p4Allot h ctx1 P4_CELL = Done (a2, ctx2)"
    and c: "ctx' = ctx2\<lparr>memory := (memory ctx2)(a2 := x)\<rparr>"
    by (auto simp: p4WordAppend_def split: res.splits)
  from p4Allot_Done [OF a1] wd
  have c1: "ctx1 = ctx\<lparr>memory := MEMSET h (memory ctx) (here ctx) ?pad,
                  word_heap := (word_heap ctx)(words ctx \<mapsto> wd\<lparr>ndata := ndata wd + ?pad\<rparr>),
                  here := here ctx + ?pad\<rparr>"
    by auto
  from p4Allot_Done [OF a2] c1
  have "a2 = here ctx + ?pad"
    and "ctx2 = ctx1\<lparr>memory := MEMSET h (memory ctx1) (here ctx1) P4_CELL,
                  word_heap := (word_heap ctx1)(words ctx1 \<mapsto>
                     wd\<lparr>ndata := ndata wd + ?pad + P4_CELL\<rparr>),
                  here := here ctx1 + P4_CELL\<rparr>"
    by auto
  moreover from p4Allot_Done_bound [OF a2] c1
  have "uint (here ctx + ?pad) + 8 < uint (endp ctx)" by (simp add: P4_CELL_def)
  ultimately show ?thesis using c c1 wd
    by (intro exI [of _ wd]) simp
qed

lemma uint_plus_cell:
  assumes "uint (a :: cell) + 8 < uint (e :: cell)"
  shows "uint (a + 8) = uint a + 8"
proof -
  have "uint e < 2 ^ 64" using uint_bounded [of e] by simp
  with assms have "uint a + uint (8 :: cell) < 2 ^ LENGTH(64)" by simp
  then have "uint (a + 8) = uint a + uint (8 :: cell)" by (simp only: uint_add_lem)
  then show ?thesis by simp
qed

lemma strnum_one_byte:
  "p4StrNum st ''$'' b = Returned 1 0 False \<and> p4StrNum st ''#'' b = Returned 1 0 False
   \<and> p4StrNum st ''%'' b = Returned 1 0 False \<and> p4StrNum st ''-'' b = Returned 1 0 False"
  by (simp add: p4StrNum_def p4StrNum_prefix_def p4StrNum_negate_def)

text \<open>
  C9.  For each of the one-byte slices \<open>$\<close>, \<open>#\<close>, \<open>%\<close> and \<open>-\<close>, \<^verbatim>\<open>p4StrNum\<close> reports
  the whole slice, one byte, consumed, with the value 0 and \<^verbatim>\<open>is_float\<close> false.  So the
  outer interpreter, for such a token that is not in the dictionary, never throws
  undefined.  In interpret state, when the data stack has room, it pushes 0: the depth goes
  up by one and the new top cell is 0.  In compile state it appends \<^verbatim>\<open>w_lit\<close> and then
  the cell 0 to the word being compiled: when both appends come back, the cell 0 is in the
  cell right behind the one that holds \<^verbatim>\<open>w_lit\<close>, \<^verbatim>\<open>here\<close> is one cell further, and
  \<^verbatim>\<open>w_lit\<close> is still in its cell provided that \<^verbatim>\<open>MEMSET\<close> writes nothing below its
  start address.  (\<open>-\<close> is the name of a built-in word, so it comes to this branch only
  where the search of the dictionary does not find that word.)
\<close>

theorem one_byte_tokens_accepted:
  assumes "str = ''$'' \<or> str = ''#'' \<or> str = ''%'' \<or> str = ''-''"
  shows "p4StrNum (strtod h) str (radix ctx) = Returned 1 0 False
     \<and> length str = 1
     \<and> (state ctx \<noteq> P4_STATE_COMPILE \<and> 0 \<le> P4_LENGTH (ds ctx)
          \<and> P4_LENGTH (ds ctx) < uint (stk_size (ds ctx))
          \<longrightarrow> p4Repl_number h ctx str =
                Done (ctx\<lparr>ds := (ds ctx)\<lparr>stk_top := stk_top (ds ctx) + 1,
                        stk_cells := (stk_cells (ds ctx))(stk_top (ds ctx) + 1 := 0)\<rparr>\<rparr>))
     \<and> (state ctx = P4_STATE_COMPILE \<and> p4WordAppend h ctx (w_lit h) = Done ctx1
          \<longrightarrow> p4Repl_number h ctx str = p4WordAppend h ctx1 0)
     \<and> (state ctx = P4_STATE_COMPILE \<and> p4WordAppend h ctx (w_lit h) = Done ctx1
          \<and> p4WordAppend h ctx1 0 = Done ctx2
          \<longrightarrow> p4Repl_number h ctx str = Done ctx2
              \<and> memory ctx1 (here ctx1 - P4_CELL) = w_lit h
              \<and> here ctx2 = here ctx1 + P4_CELL
              \<and> memory ctx2 (here ctx1) = 0
              \<and> ((\<forall>m s n a. uint a < uint s \<longrightarrow> MEMSET h m s n a = m a)
                   \<longrightarrow> memory ctx2 (here ctx1 - P4_CELL) = w_lit h)
              \<and> words ctx2 = words ctx \<and> ds ctx2 = ds ctx \<and> state ctx2 = state ctx)
     \<and> (\<forall>c. p4Repl_number h ctx str \<noteq> Thrown P4_THROW_UNDEFINED c)"
proof -
  from assms have len: "length str = 1" by auto
  from assms strnum_one_byte [of "strtod h" "radix ctx"]
  have sn: "p4StrNum (strtod h) str (radix ctx) = Returned 1 0 False" by blast
  have b: "p4Repl_number h ctx str =
                Done (ctx\<lparr>ds := (ds ctx)\<lparr>stk_top := stk_top (ds ctx) + 1,
                        stk_cells := (stk_cells (ds ctx))(stk_top (ds ctx) + 1 := 0)\<rparr>\<rparr>)"
    if "state ctx \<noteq> P4_STATE_COMPILE" "0 \<le> P4_LENGTH (ds ctx)"
      "P4_LENGTH (ds ctx) < uint (stk_size (ds ctx))"
  proof -
    from that(2,3) have "p4StackCanPopPush ctx DS 0 1 = Done ()"
      by (intro can_push_room) (simp_all add: stack_of_def)
    with that(1) sn len show ?thesis by (simp add: p4Repl_number_def P4_PUSH_def)
  qed
  have c: "p4Repl_number h ctx str = p4WordAppend h ctx1 0"
    if "state ctx = P4_STATE_COMPILE" "p4WordAppend h ctx (w_lit h) = Done ctx1"
    using that sn len by (simp add: p4Repl_number_def)
  have e: "p4Repl_number h ctx str = Done ctx2
              \<and> memory ctx1 (here ctx1 - P4_CELL) = w_lit h
              \<and> here ctx2 = here ctx1 + P4_CELL
              \<and> memory ctx2 (here ctx1) = 0
              \<and> ((\<forall>m s n a. uint a < uint s \<longrightarrow> MEMSET h m s n a = m a)
                   \<longrightarrow> memory ctx2 (here ctx1 - P4_CELL) = w_lit h)
              \<and> words ctx2 = words ctx \<and> ds ctx2 = ds ctx \<and> state ctx2 = state ctx"
    if st: "state ctx = P4_STATE_COMPILE" and a1: "p4WordAppend h ctx (w_lit h) = Done ctx1"
      and a2: "p4WordAppend h ctx1 0 = Done ctx2"
  proof -
    from p4WordAppend_cell [OF a1] obtain wd where
      wd: "word_heap ctx (words ctx) = Some wd"
      and c1: "ctx1 = ctx\<lparr>memory :=
                    (MEMSET h (MEMSET h (memory ctx) (here ctx) (P4_ALIGN_BY (ndata wd)))
                       (here ctx + P4_ALIGN_BY (ndata wd)) P4_CELL)
                    (here ctx + P4_ALIGN_BY (ndata wd) := w_lit h),
                  word_heap := (word_heap ctx)(words ctx \<mapsto>
                     wd\<lparr>ndata := ndata wd + P4_ALIGN_BY (ndata wd) + P4_CELL\<rparr>),
                  here := here ctx + P4_ALIGN_BY (ndata wd) + P4_CELL\<rparr>"
      and bd: "uint (here ctx + P4_ALIGN_BY (ndata wd)) + 8 < uint (endp ctx)"
      by blast
    let ?a = "here ctx + P4_ALIGN_BY (ndata wd)"
    from c1 have h1: "here ctx1 = ?a + 8" "here ctx1 - P4_CELL = ?a"
      and m1: "memory ctx1 ?a = w_lit h"
      and w1: "word_heap ctx1 (words ctx1) =
          Some (wd\<lparr>ndata := ndata wd + P4_ALIGN_BY (ndata wd) + P4_CELL\<rparr>)"
      and k1: "words ctx1 = words ctx" "ds ctx1 = ds ctx" "state ctx1 = state ctx"
      by (simp_all add: P4_CELL_def)
    from p4WordAppend_cell [OF a2] w1 appended_aligned [of "ndata wd"]
    have c2: "ctx2 = ctx1\<lparr>memory :=
                    (MEMSET h (MEMSET h (memory ctx1) (here ctx1) 0) (here ctx1) P4_CELL)
                    (here ctx1 := 0),
                  word_heap := (word_heap ctx1)(words ctx1 \<mapsto>
                     wd\<lparr>ndata := ndata wd + P4_ALIGN_BY (ndata wd) + P4_CELL + P4_CELL\<rparr>),
                  here := here ctx1 + P4_CELL\<rparr>"
      by auto
    have lt: "uint ?a < uint (here ctx1)"
      using uint_plus_cell [OF bd] h1(1) by simp
    have ne: "?a \<noteq> here ctx1"
      using lt by auto
    have fr: "memory ctx2 ?a = w_lit h"
      if f: "\<forall>m s n a. uint a < uint s \<longrightarrow> MEMSET h m s n a = m a"
    proof -
      from c2 ne have "memory ctx2 ?a
          = MEMSET h (MEMSET h (memory ctx1) (here ctx1) 0) (here ctx1) P4_CELL ?a"
        by simp
      also have "\<dots> = MEMSET h (memory ctx1) (here ctx1) 0 ?a" using f lt by blast
      also have "\<dots> = memory ctx1 ?a" using f lt by blast
      finally show ?thesis using m1 by simp
    qed
    from c [OF st a1] a2 have "p4Repl_number h ctx str = Done ctx2" by simp
    with c2 h1 m1 k1 fr show ?thesis by simp
  qed
  have d: "p4Repl_number h ctx str \<noteq> Thrown P4_THROW_UNDEFINED c" for c
  proof
    assume u: "p4Repl_number h ctx str = Thrown P4_THROW_UNDEFINED c"
    show False
    proof (cases "state ctx = P4_STATE_COMPILE")
      case True
      show False
      proof (cases "p4WordAppend h ctx (w_lit h)")
        case (Done ctx1)
        with u True sn len have "p4WordAppend h ctx1 0 = Thrown P4_THROW_UNDEFINED c"
          by (simp add: p4Repl_number_def)
        from p4WordAppend_Thrown [OF this] show False by (simp add: throw_defs)
      next
        case (Thrown c' x)
        with u True sn len have "c' = P4_THROW_UNDEFINED" by (simp add: p4Repl_number_def)
        with p4WordAppend_Thrown [OF Thrown] show False by (simp add: throw_defs)
      next
        case Fault
        with u True sn len show False by (simp add: p4Repl_number_def)
      qed
    next
      case False
      with u sn len show False
        by (auto simp: p4Repl_number_def p4StackCanPopPush_def Let_def throw_defs
            split: if_splits)
    qed
  qed
  from sn len b c d e show ?thesis by blast
qed

lemma append_lit_sample:
  "p4WordAppend host0 ctx_compiling (w_lit host0) = Done ctx_lit_compiled"
  by (simp add: p4WordAppend_def p4Allot_def ctx_lit_compiled_def sample_defs align_defs)

lemma append_zero_sample:
  "p4WordAppend host0 ctx_lit_compiled 0 =
     Done (ctx_compiling\<lparr>memory := (\<lambda>a. 0)(0x8010 := 0x1000, 0x8018 := 0),
            word_heap := (word_heap ctx_compiling)(0x2000 \<mapsto> word_foo\<lparr>ndata := 32\<rparr>),
            here := 0x8020\<rparr>)"
  by (simp add: p4WordAppend_def p4Allot_def ctx_lit_compiled_def sample_defs align_defs)

text \<open>
  The theorem at the token \<open>$\<close> in interpret state with the cell 5 on the data stack,
  where 0 is pushed above the 5, and at the token \<open>%\<close> in the middle of \<^verbatim>\<open>: FOO\<close>,
  where \<^verbatim>\<open>w_lit\<close> and 0 go to the two cells at \<open>0x8010\<close> and \<open>0x8018\<close>.
\<close>

theorem one_byte_tokens_accepted_witness:
  "p4StrNum (strtod host0) ''$'' (radix ctx_ds_one) = Returned 1 0 False
   \<and> P4_LENGTH (ds ctx_ds_one) = 1
   \<and> p4Repl_number host0 ctx_ds_one ''$'' =
       Done (ctx_ds_one\<lparr>ds := \<lparr>stk_size = 64, stk_top = 1,
                                 stk_cells = (\<lambda>i. 0)(0 := 5, 1 := 0)\<rparr>\<rparr>)
   \<and> state ctx_compiling = P4_STATE_COMPILE
   \<and> p4Repl_number host0 ctx_compiling ''%'' =
       Done (ctx_compiling\<lparr>memory := (\<lambda>a. 0)(0x8010 := 0x1000, 0x8018 := 0),
              word_heap := (word_heap ctx_compiling)(0x2000 \<mapsto> word_foo\<lparr>ndata := 32\<rparr>),
              here := 0x8020\<rparr>)"
  using one_byte_tokens_accepted [of "''$''" host0 ctx_ds_one ctx0 ctx0]
    one_byte_tokens_accepted [of "''%''" host0 ctx_compiling ctx_lit_compiled
      "ctx_compiling\<lparr>memory := (\<lambda>a. 0)(0x8010 := 0x1000, 0x8018 := 0),
              word_heap := (word_heap ctx_compiling)(0x2000 \<mapsto> word_foo\<lparr>ndata := 32\<rparr>),
              here := 0x8020\<rparr>"]
    append_lit_sample append_zero_sample
  by (simp add: sample_defs ctx_ds_one_def P4_PUSH_def P4_LENGTH_def P4_STATE_INTERPRET_def
      P4_STATE_COMPILE_def)

section \<open>Colon definitions\<close>




lemma p4WordCreate_Done:
  assumes "p4WordCreate h ctx nm cd = Done (p, ctx')"
  shows "p = malloc_word h \<and> (\<exists>wd. word_heap ctx (words ctx) = Some wd
     \<and> ctx' = ctx\<lparr>memory := MEMSET h (memory ctx) (here ctx) (P4_ALIGN_BY (here ctx)),
          word_heap := ((word_heap ctx)(words ctx \<mapsto>
                wd\<lparr>ndata := ndata wd + P4_ALIGN_BY (here ctx)\<rparr>))
             (malloc_word h \<mapsto> \<lparr>prev = words ctx, name = nm, bits = 0, code = cd, ndata = 0,
                  data = here ctx + P4_ALIGN_BY (here ctx)\<rparr>),
          here := here ctx + P4_ALIGN_BY (here ctx),
          words := malloc_word h\<rparr>)"
proof -
  from assms obtain a1 ctx1 where a1: "p4Allot h ctx (P4_ALIGN_BY (here ctx)) = Done (a1, ctx1)"
    by (auto simp: p4WordCreate_def split: res.splits if_splits)
  from p4Allot_Done [OF a1] obtain wd where wd: "word_heap ctx (words ctx) = Some wd"
    and c1: "ctx1 = ctx\<lparr>memory := MEMSET h (memory ctx) (here ctx) (P4_ALIGN_BY (here ctx)),
                  word_heap := (word_heap ctx)(words ctx \<mapsto>
                     wd\<lparr>ndata := ndata wd + P4_ALIGN_BY (here ctx)\<rparr>),
                  here := here ctx + P4_ALIGN_BY (here ctx)\<rparr>"
    by auto
  from assms a1 have "p = malloc_word h"
    and "ctx' = ctx1\<lparr>word_heap := (word_heap ctx1)(malloc_word h \<mapsto>
           \<lparr>prev = words ctx1, name = nm, bits = 0, code = cd, ndata = 0, data = here ctx1\<rparr>),
           words := malloc_word h\<rparr>"
    by (auto simp: p4WordCreate_def Let_def split: if_splits)
  with c1 wd show ?thesis by simp
qed



lemma word_modify_not_Thrown: "word_modify ctx p f \<noteq> Thrown c x"
  by (simp add: word_modify_def split: option.splits)

























section \<open>The control sentinel modulo 256\<close>






section \<open>CREATE and DOES>\<close>











section \<open>MARKER\<close>

lemma dict_path_unique:
  "dict_path heap p xs q \<Longrightarrow> dict_path heap p ys q \<Longrightarrow> xs = ys"
proof (induction xs arbitrary: p ys)
  case Nil
  then show ?case by (cases ys) auto
next
  case (Cons x xs)
  then show ?case by (cases ys) (auto split: option.splits)
qed

lemma dict_path_suffix:
  "dict_path heap p xs q \<Longrightarrow> x \<in> set xs \<Longrightarrow>
   \<exists>ys zs. xs = ys @ x # zs \<and> dict_path heap x (x # zs) q"
proof (induction xs arbitrary: p)
  case Nil
  then show ?case by simp
next
  case (Cons y xs)
  show ?case
  proof (cases "x = y")
    case True
    with Cons.prems(1) have "dict_path heap x (x # xs) q" by auto
    with True show ?thesis by (intro exI [of _ "[]"] exI [of _ xs]) simp
  next
    case False
    with Cons.prems obtain wd where "heap p = Some wd" "dict_path heap (prev wd) xs q" "x \<in> set xs"
      by (auto split: option.splits)
    from Cons.IH [OF this(2,3)] obtain ys zs where "xs = ys @ x # zs"
      "dict_path heap x (x # zs) q" by blast
    then show ?thesis by (intro exI [of _ "y # ys"] exI [of _ zs]) simp
  qed
qed

lemma dict_path_head_notin:
  assumes "dict_path heap p (x # xs) q"
  shows "x \<notin> set xs"
proof
  assume "x \<in> set xs"
  from assms have px: "dict_path heap x (x # xs) q" by auto
  from assms obtain wd where "heap x = Some wd" "dict_path heap (prev wd) xs q"
    by (auto split: option.splits)
  from dict_path_suffix [OF this(2) \<open>x \<in> set xs\<close>] obtain ys zs where
    "xs = ys @ x # zs" "dict_path heap x (x # zs) q" by blast
  with dict_path_unique [OF px this(2)] show False by simp
qed

lemma dict_path_target_notin: "dict_path heap p xs q \<Longrightarrow> q \<notin> set xs"
  by (induction xs arbitrary: p) (auto split: option.splits)

lemma dict_path_live: "dict_path heap p xs q \<Longrightarrow> x \<in> set xs \<Longrightarrow> heap x \<noteq> None"
  by (induction xs arbitrary: p) (auto split: option.splits)

lemma dict_path_upd:
  "x \<notin> set xs \<Longrightarrow> dict_path (heap(x := v)) p xs q = dict_path heap p xs q"
  by (induction xs arbitrary: p) (auto split: option.splits)

lemma rm_marker_loop_path:
  "dict_path heap p xs q \<Longrightarrow> heap 0 = None \<Longrightarrow>
   rm_marker_loop heap p q = Some (heap |` (- set xs))"
proof (induction xs arbitrary: heap p)
  case Nil
  then show ?case by (simp add: rm_marker_loop.simps)
next
  case (Cons x xs)
  from Cons.prems(1) obtain wd where px: "p = x" "x \<noteq> q" and wd: "heap x = Some wd"
    and path: "dict_path heap (prev wd) xs q"
    by (auto split: option.splits)
  from wd Cons.prems(2) have x0: "x \<noteq> 0" by auto
  from dict_path_head_notin [OF Cons.prems(1)] have nx: "x \<notin> set xs" .
  with path have path': "dict_path (heap(x := None)) (prev wd) xs q"
    by (simp add: dict_path_upd)
  from Cons.prems(2) have "(heap(x := None)) 0 = None" by simp
  from Cons.IH [OF path' this]
  have "rm_marker_loop (heap(x := None)) (prev wd) q = Some ((heap(x := None)) |` (- set xs))" .
  moreover have "(heap(x := None)) |` (- set xs) = heap |` (- set (x # xs))"
    by (rule ext) (simp add: restrict_map_def)
  ultimately show ?case
    using px wd x0 by (subst rm_marker_loop.simps) (simp add: p4WordFree_def)
qed

lemma rm_marker_Done:
  assumes "dict_path (word_heap ctx) (words ctx) newer m" and "word_heap ctx 0 = None"
    and "word_heap ctx m = Some wm"
  shows "at_rm_marker ctx ip m =
     Done (ctx\<lparr>words := prev wm, here := data wm,
               word_heap := word_heap ctx |` (- (set newer \<union> {m}))\<rparr>, ip)"
proof -
  from assms(2,3) have m0: "m \<noteq> 0" by auto
  from dict_path_target_notin [OF assms(1)] assms(3)
  have "(word_heap ctx |` (- set newer)) m = Some wm" by simp
  moreover have "p4WordFree (word_heap ctx |` (- set newer)) m
      = word_heap ctx |` (- (set newer \<union> {m}))"
    using m0 by (auto simp: p4WordFree_def restrict_map_def)
  ultimately show ?thesis
    using rm_marker_loop_path [OF assms(1,2)] by (simp add: at_rm_marker_def)
qed

lemma marker_Done:
  assumes "at_marker h ctx ip = Done (ctx', ip')"
  shows "ip' = ip \<and> words ctx' = malloc_word h
     \<and> here ctx' = here ctx + P4_ALIGN_BY (here ctx)
     \<and> (\<exists>wd. word_heap ctx' (words ctx') = Some wd \<and> code wd = L_rm_marker
           \<and> prev wd = words ctx \<and> data wd = here ctx + P4_ALIGN_BY (here ctx))"
proof -
  from assms obtain p where cr: "p4WordCreate h ctx (parse_name h) L_rm_marker = Done (p, ctx')"
    and ip: "ip' = ip"
    by (auto simp: at_marker_def split: res.splits)
  from p4WordCreate_Done [OF cr] ip show ?thesis by auto
qed


text \<open>
  C6, as the code has it.  After \<^verbatim>\<open>MARKER m\<close>, in any later context in which the
  \<^verbatim>\<open>prev\<close> links lead from the head of the dictionary to \<^verbatim>\<open>m\<close>, executing \<^verbatim>\<open>m\<close> frees
  \<^verbatim>\<open>m\<close> and every word newer than \<^verbatim>\<open>m\<close>, and sets the head of the dictionary to its
  value when \<^verbatim>\<open>MARKER m\<close> was executed and \<^verbatim>\<open>here\<close> to the data base of \<^verbatim>\<open>m\<close>: the
  \<^verbatim>\<open>here\<close> of that moment moved up to the next cell boundary, which is that \<^verbatim>\<open>here\<close>
  itself when it was aligned.  The blocks from \<^verbatim>\<open>ALLOCATE\<close> stay.
\<close>

theorem marker_restores:
  assumes "at_marker h ctxa ipa = Done (ctx1, ip1)"
    and "dict_path (word_heap ctx2) (words ctx2) newer (words ctx1)"
    and "word_heap ctx2 0 = None"
    and "word_heap ctx1 (words ctx1) = Some w1"
    and "word_heap ctx2 (words ctx1) = Some wm"
    and "prev wm = prev w1" and "data wm = data w1"
  shows "\<exists>ctx3. at_rm_marker ctx2 ip (words ctx1) = Done (ctx3, ip)
           \<and> words ctx3 = words ctxa
           \<and> here ctx3 = here ctxa + P4_ALIGN_BY (here ctxa)
           \<and> (if here ctxa AND 7 = 0 then here ctx3 = here ctxa else True)
           \<and> word_heap ctx3 = word_heap ctx2 |` (- (set newer \<union> {words ctx1}))
           \<and> blocks ctx3 = blocks ctx2"
proof -
  from marker_Done [OF assms(1)] assms(4)
  have w1: "prev w1 = words ctxa" "data w1 = here ctxa + P4_ALIGN_BY (here ctxa)"
    by auto
  let ?ctx3 = "ctx2\<lparr>words := prev wm, here := data wm,
               word_heap := word_heap ctx2 |` (- (set newer \<union> {words ctx1}))\<rparr>"
  from rm_marker_Done [OF assms(2,3,5)]
  have "at_rm_marker ctx2 ip (words ctx1) = Done (?ctx3, ip)" .
  moreover have "words ?ctx3 = words ctxa" "here ?ctx3 = here ctxa + P4_ALIGN_BY (here ctxa)"
    "word_heap ?ctx3 = word_heap ctx2 |` (- (set newer \<union> {words ctx1}))"
    "blocks ?ctx3 = blocks ctx2"
    using w1 assms(6,7) by simp_all
  moreover have "if here ctxa AND 7 = 0 then here ?ctx3 = here ctxa else True"
    using w1 assms(7) by (simp add: aligned_stays)
  ultimately show ?thesis by blast
qed

lemma marker_sample: "at_marker host0 ctx0 0 = Done (ctx_marker, 0)"
  by (simp add: at_marker_def p4WordCreate_def p4Allot_def ctx_marker_def word_m_def
      sample_defs align_defs)

lemma after_marker_path:
  "dict_path (word_heap ctx_after_marker) (words ctx_after_marker) [0x2100] 0x2000"
  by (simp add: ctx_after_marker_def ctx_marker_def)

text \<open>
  The theorem at \<^verbatim>\<open>MARKER X\<close> typed at \<open>ctx0\<close>, followed by the creation of \<^verbatim>\<open>Y\<close> and
  an allocation: executing \<^verbatim>\<open>X\<close> gives \<open>ctx0\<close> back, with the block still allocated.
\<close>

theorem marker_restores_witness:
  "at_marker host0 ctx0 0 = Done (ctx_marker, 0)
   \<and> dict_path (word_heap ctx_after_marker) (words ctx_after_marker) [0x2100] (words ctx_marker)
   \<and> word_heap ctx_after_marker 0 = None
   \<and> word_heap ctx_marker (words ctx_marker) = Some word_m
   \<and> word_heap ctx_after_marker (words ctx_marker) = Some word_m
   \<and> at_rm_marker ctx_after_marker 0 0x2000 = Done (ctx0\<lparr>blocks := {0x3000}\<rparr>, 0)"
proof -
  have m: "words ctx_marker = 0x2000"
    by (simp add: ctx_marker_def)
  have f: "word_heap ctx_after_marker 0 = None"
    "word_heap ctx_marker (words ctx_marker) = Some word_m"
    "word_heap ctx_after_marker (words ctx_marker) = Some word_m"
    by (simp_all add: ctx_after_marker_def ctx_marker_def sample_defs)
  have p: "dict_path (word_heap ctx_after_marker) (words ctx_after_marker) [0x2100]
      (words ctx_marker)"
    unfolding m by (rule after_marker_path)
  from marker_restores [OF marker_sample p f(1,2,3), of 0]
  obtain ctx3 where r: "at_rm_marker ctx_after_marker 0 (words ctx_marker) = Done (ctx3, 0)"
    and w: "words ctx3 = words ctx0" "here ctx3 = here ctx0 + P4_ALIGN_BY (here ctx0)"
      "word_heap ctx3 = word_heap ctx_after_marker |` (- (set [0x2100] \<union> {words ctx_marker}))"
      "blocks ctx3 = blocks ctx_after_marker"
    by auto
  from r have "ctx3 = ctx_after_marker\<lparr>words := words ctx3, here := here ctx3,
      word_heap := word_heap ctx3\<rparr>"
    by (auto simp: at_rm_marker_def split: option.splits)
  with w have "ctx3 = ctx0\<lparr>blocks := {0x3000}\<rparr>"
    by (simp add: ctx_after_marker_def ctx_marker_def sample_defs align_defs)
  with r m have "at_rm_marker ctx_after_marker 0 0x2000 = Done (ctx0\<lparr>blocks := {0x3000}\<rparr>, 0)"
    by simp
  with marker_sample p f show ?thesis by blast
qed

lemma odd_marker_sample: "at_marker host0 ctx_odd 0 = Done (ctx_odd_marker, 0)"
  by (simp add: at_marker_def p4WordCreate_def p4Allot_def ctx_odd_def ctx_odd_marker_def
      word_m_def sample_defs align_defs)

text \<open>
  C6 as it is stated fails when \<^verbatim>\<open>here\<close> is not cell-aligned at \<^verbatim>\<open>MARKER\<close>: after
  \<^verbatim>\<open>3 ALLOT\<close>, \<^verbatim>\<open>here\<close> is \<open>0x8003\<close>; \<^verbatim>\<open>MARKER X\<close> aligns it first, and executing
  \<^verbatim>\<open>X\<close> leaves \<^verbatim>\<open>here\<close> at \<open>0x8008\<close>.
\<close>

theorem marker_here_not_exact:
  "at_allot host0 (ctx0\<lparr>ds := P4_PUSH (ds ctx0) 3\<rparr>) 0 = Done (ctx_odd, 0)
   \<and> here ctx_odd = 0x8003
   \<and> at_marker host0 ctx_odd 0 = Done (ctx_odd_marker, 0)
   \<and> at_rm_marker ctx_odd_marker 0 (words ctx_odd_marker) =
       Done (ctx_odd\<lparr>here := 0x8008, word_heap := [0x100 \<mapsto> word_dup\<lparr>ndata := 8\<rparr>]\<rparr>, 0)"
proof -
  have "at_allot host0 (ctx0\<lparr>ds := P4_PUSH (ds ctx0) 3\<rparr>) 0 = Done (ctx_odd, 0)"
    by (simp add: at_allot_def p4Allot_def P4_POP_def P4_PUSH_def P4_DROP_def ctx_odd_def
        sample_defs)
  moreover
  have "dict_path (word_heap ctx_odd_marker) (words ctx_odd_marker) [] (words ctx_odd_marker)"
    by simp
  from rm_marker_Done [OF this, of "word_m\<lparr>data := 0x8008\<rparr>" 0]
  have "at_rm_marker ctx_odd_marker 0 (words ctx_odd_marker) =
       Done (ctx_odd\<lparr>here := 0x8008, word_heap := [0x100 \<mapsto> word_dup\<lparr>ndata := 8\<rparr>]\<rparr>, 0)"
    by (simp add: ctx_odd_marker_def ctx_odd_def word_m_def sample_defs)
  ultimately show ?thesis
    using odd_marker_sample by (simp add: ctx_odd_def)
qed

section \<open>Depth checks\<close>

lemma can_pop_push_under:
  "P4_LENGTH (stack_of ctx sid) < pop \<Longrightarrow>
   p4StackCanPopPush ctx sid pop push =
     Thrown (case sid of DS \<Rightarrow> P4_THROW_DS_UNDER | RS \<Rightarrow> P4_THROW_RS_UNDER
             | FS \<Rightarrow> P4_THROW_FS_UNDER) ctx"
  by (simp add: p4StackCanPopPush_def P4_LENGTH_def Let_def)

lemma can_pop_push_over:
  assumes "pop \<le> P4_LENGTH (stack_of ctx sid)"
    and "uint (stk_size (stack_of ctx sid)) < P4_LENGTH (stack_of ctx sid) + push - pop"
    and "P4_LENGTH (stack_of ctx sid) + push - pop < 2 ^ 64"
  shows "p4StackCanPopPush ctx sid pop push =
     Thrown (case sid of DS \<Rightarrow> P4_THROW_DS_OVER | RS \<Rightarrow> P4_THROW_RS_OVER
             | FS \<Rightarrow> P4_THROW_FS_OVER) ctx"
proof -
  let ?k = "stk_top (stack_of ctx sid) + 1 + push - pop"
  from assms have k: "uint (stk_size (stack_of ctx sid)) < ?k" "?k < 2 ^ 64"
    by (simp_all add: P4_LENGTH_def)
  moreover have "0 \<le> uint (stk_size (stack_of ctx sid))" by simp
  ultimately have "0 \<le> ?k" by linarith
  with k have "uint (word_of_int ?k :: cell) = ?k" by (intro uint_word_of_int_cell)
  with k have "stk_size (stack_of ctx sid) < word_of_int ?k"
    unfolding word_less_def by linarith
  with assms(1) show ?thesis
    by (simp add: p4StackCanPopPush_def P4_LENGTH_def Let_def)
qed

lemma can_pop_push_ok:
  assumes "pop \<le> P4_LENGTH (stack_of ctx sid)"
    and "0 \<le> P4_LENGTH (stack_of ctx sid) + push - pop"
    and "P4_LENGTH (stack_of ctx sid) + push - pop \<le> uint (stk_size (stack_of ctx sid))"
  shows "p4StackCanPopPush ctx sid pop push = Done ()"
proof -
  let ?k = "stk_top (stack_of ctx sid) + 1 + push - pop"
  from assms have k: "0 \<le> ?k" "?k \<le> uint (stk_size (stack_of ctx sid))"
    by (simp_all add: P4_LENGTH_def)
  moreover have "uint (stk_size (stack_of ctx sid)) < 2 ^ 64"
    using uint_bounded [of "stk_size (stack_of ctx sid)"] by simp
  ultimately have "?k < 2 ^ 64" by linarith
  with k have "uint (word_of_int ?k :: cell) = ?k" by (intro uint_word_of_int_cell)
  with k have "\<not> stk_size (stack_of ctx sid) < word_of_int ?k"
    unfolding word_less_def by linarith
  with assms(1) show ?thesis
    by (simp add: p4StackCanPopPush_def P4_LENGTH_def Let_def)
qed

text \<open>
  C4, as the code has it.  \<^verbatim>\<open>p4StackCanPopPush\<close> throws the underflow code of the stack
  it is given (data, return or float) when the depth is less than \<open>pop\<close>, else the overflow
  code of that stack when the depth after the pops and pushes is more than the capacity,
  and the context it throws is the one it was given.  The primitives on the return stack
  \<^verbatim>\<open>_exit\<close>, \<^verbatim>\<open>R>\<close>, \<^verbatim>\<open>_enter\<close> and \<^verbatim>\<open>_call\<close> make this check before they
  touch anything, and \<^verbatim>\<open>>R\<close> makes it before it touches the return stack, after it
  has popped the data stack.  The primitives \<^verbatim>\<open>+\<close>, \<^verbatim>\<open>-\<close>, \<^verbatim>\<open>*\<close>, \<^verbatim>\<open>DUP\<close>,
  \<^verbatim>\<open>DROP\<close> and \<^verbatim>\<open>_lit\<close> make no check and never throw: whatever the depth is, they
  move the top of the data stack and write their result; the depth of the data stack is
  checked by \<^verbatim>\<open>_next\<close> at the following dispatch, which throws data-stack underflow or
  overflow when the depth is then outside the bounds.
\<close>

theorem depth_checks:
  "(stk_top (stack_of ctx sid) + 1 < pop \<longrightarrow>
      p4StackCanPopPush ctx sid pop push =
        Thrown (case sid of DS \<Rightarrow> P4_THROW_DS_UNDER | RS \<Rightarrow> P4_THROW_RS_UNDER
                | FS \<Rightarrow> P4_THROW_FS_UNDER) ctx)
   \<and> (pop \<le> stk_top (stack_of ctx sid) + 1
        \<and> uint (stk_size (stack_of ctx sid)) < stk_top (stack_of ctx sid) + 1 + push - pop
        \<and> stk_top (stack_of ctx sid) + 1 + push - pop < 2 ^ 64 \<longrightarrow>
      p4StackCanPopPush ctx sid pop push =
        Thrown (case sid of DS \<Rightarrow> P4_THROW_DS_OVER | RS \<Rightarrow> P4_THROW_RS_OVER
                | FS \<Rightarrow> P4_THROW_FS_OVER) ctx)
   \<and> (pop \<le> stk_top (stack_of ctx sid) + 1
        \<and> 0 \<le> stk_top (stack_of ctx sid) + 1 + push - pop
        \<and> stk_top (stack_of ctx sid) + 1 + push - pop \<le> uint (stk_size (stack_of ctx sid)) \<longrightarrow>
      p4StackCanPopPush ctx sid pop push = Done ())
   \<and> (stk_top (rs ctx) + 1 < 1 \<longrightarrow>
      at_exit ctx ip = Thrown P4_THROW_RS_UNDER ctx
      \<and> at_from_rs ctx ip = Thrown P4_THROW_RS_UNDER ctx)
   \<and> (0 \<le> stk_top (rs ctx) + 1 \<and> uint (stk_size (rs ctx)) \<le> stk_top (rs ctx) + 1
        \<and> stk_top (rs ctx) + 1 + 1 < 2 ^ 64 \<longrightarrow>
      at_enter ctx ip w = Thrown P4_THROW_RS_OVER ctx
      \<and> at_call ctx ip = Thrown P4_THROW_RS_OVER ctx
      \<and> at_to_rs ctx ip =
          Thrown P4_THROW_RS_OVER (ctx\<lparr>ds := (ds ctx)\<lparr>stk_top := stk_top (ds ctx) - 1\<rparr>\<rparr>))
   \<and> at_add ctx ip =
       Done (ctx\<lparr>ds := (ds ctx)\<lparr>stk_top := stk_top (ds ctx) - 1,
               stk_cells := (stk_cells (ds ctx))(stk_top (ds ctx) - 1 :=
                 stk_cells (ds ctx) (stk_top (ds ctx) - 1)
                   + stk_cells (ds ctx) (stk_top (ds ctx)))\<rparr>\<rparr>, ip)
   \<and> at_sub ctx ip =
       Done (ctx\<lparr>ds := (ds ctx)\<lparr>stk_top := stk_top (ds ctx) - 1,
               stk_cells := (stk_cells (ds ctx))(stk_top (ds ctx) - 1 :=
                 stk_cells (ds ctx) (stk_top (ds ctx) - 1)
                   - stk_cells (ds ctx) (stk_top (ds ctx)))\<rparr>\<rparr>, ip)
   \<and> at_mul ctx ip =
       Done (ctx\<lparr>ds := (ds ctx)\<lparr>stk_top := stk_top (ds ctx) - 1,
               stk_cells := (stk_cells (ds ctx))(stk_top (ds ctx) - 1 :=
                 stk_cells (ds ctx) (stk_top (ds ctx) - 1)
                   * stk_cells (ds ctx) (stk_top (ds ctx)))\<rparr>\<rparr>, ip)
   \<and> at_dup ctx ip =
       Done (ctx\<lparr>ds := (ds ctx)\<lparr>stk_top := stk_top (ds ctx) + 1,
               stk_cells := (stk_cells (ds ctx))(stk_top (ds ctx) + 1 :=
                 stk_cells (ds ctx) (stk_top (ds ctx)))\<rparr>\<rparr>, ip)
   \<and> at_drop ctx ip = Done (ctx\<lparr>ds := (ds ctx)\<lparr>stk_top := stk_top (ds ctx) - 1\<rparr>\<rparr>, ip)
   \<and> at_lit ctx ip =
       Done (ctx\<lparr>ds := (ds ctx)\<lparr>stk_top := stk_top (ds ctx) + 1,
               stk_cells := (stk_cells (ds ctx))(stk_top (ds ctx) + 1 := memory ctx ip)\<rparr>\<rparr>,
             ip + P4_CELL)
   \<and> (stk_top (ds ctx) + 1 < 0 \<longrightarrow> at_next h ctx ip = Thrown P4_THROW_DS_UNDER ctx)
   \<and> (uint (stk_size (ds ctx)) < stk_top (ds ctx) + 1 \<and> stk_top (ds ctx) + 1 < 2 ^ 64 \<longrightarrow>
      at_next h ctx ip = Thrown P4_THROW_DS_OVER ctx)"
proof (intro conjI impI)
  assume "stk_top (stack_of ctx sid) + 1 < pop"
  then show "p4StackCanPopPush ctx sid pop push =
        Thrown (case sid of DS \<Rightarrow> P4_THROW_DS_UNDER | RS \<Rightarrow> P4_THROW_RS_UNDER
                | FS \<Rightarrow> P4_THROW_FS_UNDER) ctx"
    by (simp add: p4StackCanPopPush_def Let_def)
next
  assume "pop \<le> stk_top (stack_of ctx sid) + 1
        \<and> uint (stk_size (stack_of ctx sid)) < stk_top (stack_of ctx sid) + 1 + push - pop
        \<and> stk_top (stack_of ctx sid) + 1 + push - pop < 2 ^ 64"
  then show "p4StackCanPopPush ctx sid pop push =
        Thrown (case sid of DS \<Rightarrow> P4_THROW_DS_OVER | RS \<Rightarrow> P4_THROW_RS_OVER
                | FS \<Rightarrow> P4_THROW_FS_OVER) ctx"
    by (intro can_pop_push_over) (simp_all add: P4_LENGTH_def)
next
  assume "pop \<le> stk_top (stack_of ctx sid) + 1
        \<and> 0 \<le> stk_top (stack_of ctx sid) + 1 + push - pop
        \<and> stk_top (stack_of ctx sid) + 1 + push - pop \<le> uint (stk_size (stack_of ctx sid))"
  then show "p4StackCanPopPush ctx sid pop push = Done ()"
    by (intro can_pop_push_ok) (simp_all add: P4_LENGTH_def)
next
  assume "stk_top (rs ctx) + 1 < 1"
  then have u: "p4StackCanPopPush ctx RS 1 0 = Thrown P4_THROW_RS_UNDER ctx"
    using can_pop_push_under [of ctx RS 1 0] by (simp add: stack_of_def P4_LENGTH_def)
  then show "at_exit ctx ip = Thrown P4_THROW_RS_UNDER ctx"
    by (simp add: at_exit_def)
  from u show "at_from_rs ctx ip = Thrown P4_THROW_RS_UNDER ctx"
    by (simp add: at_from_rs_def)
next
  assume a: "0 \<le> stk_top (rs ctx) + 1 \<and> uint (stk_size (rs ctx)) \<le> stk_top (rs ctx) + 1
        \<and> stk_top (rs ctx) + 1 + 1 < 2 ^ 64"
  then have o: "p4StackCanPopPush ctx RS 0 1 = Thrown P4_THROW_RS_OVER ctx"
    using can_pop_push_over [of 0 ctx RS 1] by (simp add: stack_of_def P4_LENGTH_def)
  then show "at_enter ctx ip w = Thrown P4_THROW_RS_OVER ctx"
    by (simp add: at_enter_def)
  from o show "at_call ctx ip = Thrown P4_THROW_RS_OVER ctx"
    by (simp add: at_call_def)
  let ?ctx1 = "ctx\<lparr>ds := (ds ctx)\<lparr>stk_top := stk_top (ds ctx) - 1\<rparr>\<rparr>"
  from a have "p4StackCanPopPush ?ctx1 RS 0 1 = Thrown P4_THROW_RS_OVER ?ctx1"
    using can_pop_push_over [of 0 ?ctx1 RS 1]
    by (simp add: stack_of_def P4_LENGTH_def)
  then show "at_to_rs ctx ip = Thrown P4_THROW_RS_OVER ?ctx1"
    by (simp add: at_to_rs_def P4_POP_def)
next
  show "at_add ctx ip =
       Done (ctx\<lparr>ds := (ds ctx)\<lparr>stk_top := stk_top (ds ctx) - 1,
               stk_cells := (stk_cells (ds ctx))(stk_top (ds ctx) - 1 :=
                 stk_cells (ds ctx) (stk_top (ds ctx) - 1)
                   + stk_cells (ds ctx) (stk_top (ds ctx)))\<rparr>\<rparr>, ip)"
    by (simp add: at_add_def P4_POP_def P4_TOP_def P4_TOP_set_def)
next
  show "at_sub ctx ip =
       Done (ctx\<lparr>ds := (ds ctx)\<lparr>stk_top := stk_top (ds ctx) - 1,
               stk_cells := (stk_cells (ds ctx))(stk_top (ds ctx) - 1 :=
                 stk_cells (ds ctx) (stk_top (ds ctx) - 1)
                   - stk_cells (ds ctx) (stk_top (ds ctx)))\<rparr>\<rparr>, ip)"
    by (simp add: at_sub_def P4_POP_def P4_TOP_def P4_TOP_set_def)
next
  show "at_mul ctx ip =
       Done (ctx\<lparr>ds := (ds ctx)\<lparr>stk_top := stk_top (ds ctx) - 1,
               stk_cells := (stk_cells (ds ctx))(stk_top (ds ctx) - 1 :=
                 stk_cells (ds ctx) (stk_top (ds ctx) - 1)
                   * stk_cells (ds ctx) (stk_top (ds ctx)))\<rparr>\<rparr>, ip)"
    by (simp add: at_mul_def P4_POP_def P4_TOP_def P4_TOP_set_def)
next
  show "at_dup ctx ip =
       Done (ctx\<lparr>ds := (ds ctx)\<lparr>stk_top := stk_top (ds ctx) + 1,
               stk_cells := (stk_cells (ds ctx))(stk_top (ds ctx) + 1 :=
                 stk_cells (ds ctx) (stk_top (ds ctx)))\<rparr>\<rparr>, ip)"
    by (simp add: at_dup_def P4_PUSH_def P4_TOP_def)
next
  show "at_drop ctx ip = Done (ctx\<lparr>ds := (ds ctx)\<lparr>stk_top := stk_top (ds ctx) - 1\<rparr>\<rparr>, ip)"
    by (simp add: at_drop_def P4_DROP_def)
next
  show "at_lit ctx ip =
       Done (ctx\<lparr>ds := (ds ctx)\<lparr>stk_top := stk_top (ds ctx) + 1,
               stk_cells := (stk_cells (ds ctx))(stk_top (ds ctx) + 1 := memory ctx ip)\<rparr>\<rparr>,
             ip + P4_CELL)"
    by (simp add: at_lit_def P4_PUSH_def)
next
  assume "stk_top (ds ctx) + 1 < 0"
  then have "p4StackCanPopPush ctx DS 0 0 = Thrown P4_THROW_DS_UNDER ctx"
    using can_pop_push_under [of ctx DS 0 0] by (simp add: stack_of_def P4_LENGTH_def)
  then show "at_next h ctx ip = Thrown P4_THROW_DS_UNDER ctx"
    by (simp add: at_next_def)
next
  assume a: "uint (stk_size (ds ctx)) < stk_top (ds ctx) + 1 \<and> stk_top (ds ctx) + 1 < 2 ^ 64"
  moreover have "0 \<le> uint (stk_size (ds ctx))" by simp
  ultimately have "0 \<le> stk_top (ds ctx) + 1" by linarith
  with a have "p4StackCanPopPush ctx DS 0 0 = Thrown P4_THROW_DS_OVER ctx"
    using can_pop_push_over [of 0 ctx DS 0] by (simp add: stack_of_def P4_LENGTH_def)
  then show "at_next h ctx ip = Thrown P4_THROW_DS_OVER ctx"
    by (simp add: at_next_def)
qed

text \<open>
  The theorem on the sample contexts: \<^verbatim>\<open>_exit\<close> and \<^verbatim>\<open>R>\<close> on the empty return stack,
  \<^verbatim>\<open>_enter\<close>, \<^verbatim>\<open>_call\<close> and \<^verbatim>\<open>>R\<close> on the full one, \<^verbatim>\<open>DUP\<close> on the full data
  stack of 64 and \<^verbatim>\<open>_next\<close> with the 65 cells it leaves, \<^verbatim>\<open>DROP\<close> on the empty data
  stack and \<^verbatim>\<open>_next\<close> with the depth -1 it leaves.
\<close>

theorem depth_checks_witness:
  "stk_top (stack_of ctx0 RS) + 1 = 0
   \<and> p4StackCanPopPush ctx0 RS 1 0 = Thrown P4_THROW_RS_UNDER ctx0
   \<and> at_exit ctx0 0 = Thrown P4_THROW_RS_UNDER ctx0
   \<and> at_from_rs ctx0 0 = Thrown P4_THROW_RS_UNDER ctx0
   \<and> p4StackCanPopPush ctx0 DS 0 1 = Done ()
   \<and> stk_top (rs ctx_rs_full) + 1 = 64 \<and> uint (stk_size (rs ctx_rs_full)) = 64
   \<and> p4StackCanPopPush ctx_rs_full RS 0 1 = Thrown P4_THROW_RS_OVER ctx_rs_full
   \<and> at_enter ctx_rs_full 0 0x100 = Thrown P4_THROW_RS_OVER ctx_rs_full
   \<and> at_call ctx_rs_full 0 = Thrown P4_THROW_RS_OVER ctx_rs_full
   \<and> at_to_rs ctx_rs_full 0
       = Thrown P4_THROW_RS_OVER
           (ctx_rs_full\<lparr>ds := (ds ctx_rs_full)\<lparr>stk_top := stk_top (ds ctx_rs_full) - 1\<rparr>\<rparr>)
   \<and> stk_top (ds ctx_ds_full) + 1 = 64
   \<and> at_dup ctx_ds_full 0 =
       Done (ctx_ds_full\<lparr>ds := \<lparr>stk_size = 64, stk_top = 64, stk_cells = (\<lambda>i. 7)\<rparr>\<rparr>, 0)
   \<and> at_next host0 (ctx_ds_full\<lparr>ds := \<lparr>stk_size = 64, stk_top = 64, stk_cells = (\<lambda>i. 7)\<rparr>\<rparr>) 0
       = Thrown P4_THROW_DS_OVER
           (ctx_ds_full\<lparr>ds := \<lparr>stk_size = 64, stk_top = 64, stk_cells = (\<lambda>i. 7)\<rparr>\<rparr>)
   \<and> stk_top (ds ctx0) + 1 = 0
   \<and> at_drop ctx0 0 = Done (ctx0\<lparr>ds := \<lparr>stk_size = 64, stk_top = - 2, stk_cells = (\<lambda>i. 0)\<rparr>\<rparr>, 0)
   \<and> at_next host0 (ctx0\<lparr>ds := \<lparr>stk_size = 64, stk_top = - 2, stk_cells = (\<lambda>i. 0)\<rparr>\<rparr>) 0
       = Thrown P4_THROW_DS_UNDER
           (ctx0\<lparr>ds := \<lparr>stk_size = 64, stk_top = - 2, stk_cells = (\<lambda>i. 0)\<rparr>\<rparr>)"
proof -
  note t1 = depth_checks [where ctx = ctx0 and sid = RS and pop = 1 and push = 0 and ip = 0
      and w = 0 and h = host0]
  note t2 = depth_checks [where ctx = ctx0 and sid = DS and pop = 0 and push = 1 and ip = 0
      and w = 0 and h = host0]
  note t3 = depth_checks [where ctx = ctx_rs_full and sid = RS and pop = 0 and push = 1
      and ip = 0 and w = "0x100" and h = host0]
  note t4 = depth_checks [where ctx = ctx_ds_full and sid = DS and pop = 0 and push = 0
      and ip = 0 and w = 0 and h = host0]
  note t5 = depth_checks [where
      ctx = "ctx_ds_full\<lparr>ds := \<lparr>stk_size = 64, stk_top = 64, stk_cells = (\<lambda>i. 7)\<rparr>\<rparr>"
      and sid = DS and pop = 0 and push = 0 and ip = 0 and w = 0 and h = host0]
  note t6 = depth_checks [where
      ctx = "ctx0\<lparr>ds := \<lparr>stk_size = 64, stk_top = - 2, stk_cells = (\<lambda>i. 0)\<rparr>\<rparr>"
      and sid = DS and pop = 0 and push = 0 and ip = 0 and w = 0 and h = host0]
  have a: "stk_top (stack_of ctx0 RS) + 1 = 0" "stk_top (rs ctx0) + 1 = 0"
    "stk_top (stack_of ctx0 DS) + 1 = 0" "uint (stk_size (stack_of ctx0 DS)) = 64"
    "stk_top (rs ctx_rs_full) + 1 = 64" "uint (stk_size (rs ctx_rs_full)) = 64"
    "stk_top (stack_of ctx_rs_full RS) + 1 = 64"
    "uint (stk_size (stack_of ctx_rs_full RS)) = 64"
    "stk_top (ds ctx_ds_full) + 1 = 64" "stk_top (ds ctx0) + 1 = 0"
    by (simp_all add: stack_of_def ctx_rs_full_def ctx_ds_full_def sample_defs)
  from t1 a have b1: "p4StackCanPopPush ctx0 RS 1 0 = Thrown P4_THROW_RS_UNDER ctx0"
    "at_exit ctx0 0 = Thrown P4_THROW_RS_UNDER ctx0"
    "at_from_rs ctx0 0 = Thrown P4_THROW_RS_UNDER ctx0"
    by simp_all
  from t2 a have b2: "p4StackCanPopPush ctx0 DS 0 1 = Done ()" by simp
  from t3 a have b3: "p4StackCanPopPush ctx_rs_full RS 0 1 = Thrown P4_THROW_RS_OVER ctx_rs_full"
    "at_enter ctx_rs_full 0 0x100 = Thrown P4_THROW_RS_OVER ctx_rs_full"
    "at_call ctx_rs_full 0 = Thrown P4_THROW_RS_OVER ctx_rs_full"
    "at_to_rs ctx_rs_full 0
       = Thrown P4_THROW_RS_OVER
           (ctx_rs_full\<lparr>ds := (ds ctx_rs_full)\<lparr>stk_top := stk_top (ds ctx_rs_full) - 1\<rparr>\<rparr>)"
    by simp_all
  from t4 have "at_dup ctx_ds_full 0 =
       Done (ctx_ds_full\<lparr>ds := (ds ctx_ds_full)\<lparr>stk_top := stk_top (ds ctx_ds_full) + 1,
               stk_cells := (stk_cells (ds ctx_ds_full))(stk_top (ds ctx_ds_full) + 1 :=
                 stk_cells (ds ctx_ds_full) (stk_top (ds ctx_ds_full)))\<rparr>\<rparr>, 0)"
    by blast
  also have "(ds ctx_ds_full)\<lparr>stk_top := stk_top (ds ctx_ds_full) + 1,
               stk_cells := (stk_cells (ds ctx_ds_full))(stk_top (ds ctx_ds_full) + 1 :=
                 stk_cells (ds ctx_ds_full) (stk_top (ds ctx_ds_full)))\<rparr>
      = \<lparr>stk_size = 64, stk_top = 64, stk_cells = (\<lambda>i. 7)\<rparr>"
    by (auto simp add: ctx_ds_full_def fun_eq_iff)
  finally have b4: "at_dup ctx_ds_full 0 =
       Done (ctx_ds_full\<lparr>ds := \<lparr>stk_size = 64, stk_top = 64, stk_cells = (\<lambda>i. 7)\<rparr>\<rparr>, 0)" .
  from t5 have b5:
    "at_next host0 (ctx_ds_full\<lparr>ds := \<lparr>stk_size = 64, stk_top = 64, stk_cells = (\<lambda>i. 7)\<rparr>\<rparr>) 0
       = Thrown P4_THROW_DS_OVER
           (ctx_ds_full\<lparr>ds := \<lparr>stk_size = 64, stk_top = 64, stk_cells = (\<lambda>i. 7)\<rparr>\<rparr>)"
    by simp
  from t2 have "at_drop ctx0 0 = Done (ctx0\<lparr>ds := (ds ctx0)\<lparr>stk_top := stk_top (ds ctx0) - 1\<rparr>\<rparr>, 0)"
    by blast
  also have "(ds ctx0)\<lparr>stk_top := stk_top (ds ctx0) - 1\<rparr>
      = \<lparr>stk_size = 64, stk_top = - 2, stk_cells = (\<lambda>i. 0)\<rparr>"
    by (simp add: sample_defs)
  finally have b6: "at_drop ctx0 0 =
      Done (ctx0\<lparr>ds := \<lparr>stk_size = 64, stk_top = - 2, stk_cells = (\<lambda>i. 0)\<rparr>\<rparr>, 0)" .
  from t6 have b7:
    "at_next host0 (ctx0\<lparr>ds := \<lparr>stk_size = 64, stk_top = - 2, stk_cells = (\<lambda>i. 0)\<rparr>\<rparr>) 0
       = Thrown P4_THROW_DS_UNDER
           (ctx0\<lparr>ds := \<lparr>stk_size = 64, stk_top = - 2, stk_cells = (\<lambda>i. 0)\<rparr>\<rparr>)"
    by simp
  from a b1 b2 b3 b4 b5 b6 b7 show ?thesis by blast
qed

text \<open>
  C4 as it is stated fails on the data stack.  \<^verbatim>\<open>DUP\<close> on the full data stack does not throw:
  it writes the 65th cell, over the sentinel slot, and \<^verbatim>\<open>_next\<close> throws only afterwards.
  \<^verbatim>\<open>+\<close> with one cell on the data stack, where it pops two, does not throw either: it
  writes the sum below the base of the stack and leaves the depth 0, which passes the check
  of \<^verbatim>\<open>_next\<close>.
\<close>

theorem data_stack_mutated_unchecked:
  "P4_LENGTH (ds ctx_ds_full) = 64 \<and> uint (stk_size (ds ctx_ds_full)) = 64
   \<and> at_dup ctx_ds_full 0 = Done (ctx_ds_full\<lparr>ds := P4_PUSH (ds ctx_ds_full) 7\<rparr>, 0)
   \<and> P4_LENGTH (P4_PUSH (ds ctx_ds_full) 7) = 65
   \<and> P4_LENGTH (ds ctx_ds_one) = 1
   \<and> at_add ctx_ds_one 0 =
       Done (ctx0\<lparr>ds := \<lparr>stk_size = 64, stk_top = - 1,
                          stk_cells = (\<lambda>i. 0)(0 := 5, - 1 := 5)\<rparr>\<rparr>, 0)"
  by (simp add: at_dup_def at_add_def P4_POP_def P4_TOP_def P4_TOP_set_def P4_PUSH_def
      P4_LENGTH_def ctx_ds_full_def ctx_ds_one_def sample_defs)

end
